theory Spec2Isabelle
  imports Main "HOL-Library.Word"
begin

section \<open>Values shared by both components\<close>

text \<open>
  The two source files are \<^verbatim>\<open>dagster_insights/metrics_utils.py\<close> (the cost uploader) and
  \<^verbatim>\<open>execution/cloud_run_launcher/process.py\<close> (the process run launcher). Python strings
  are modelled as \<^typ>\<open>string\<close> with one \<^typ>\<open>char\<close> per Latin-1 code point, Python
  integers as \<^typ>\<open>int\<close>, and a Python float as its 64-bit pattern: the code only
  carries floats around and never computes with them.
\<close>

type_synonym float64 = "64 word"

text \<open>The value \<^verbatim>\<open>resp.json()\<close> returns: a parsed JSON document. A dict is an association
  list read with \<^const>\<open>map_of\<close>.\<close>

datatype json =
    JNull
  | JBool bool
  | JInt int
  | JFloat float64
  | JStr string
  | JArr "json list"
  | JObj "(string \<times> json) list"

text \<open>Every exception class that the modelled code can let escape. \<open>Exception msg cause\<close>
  is the plain \<^verbatim>\<open>Exception(msg)\<close> raised \<^verbatim>\<open>from cause\<close>; \<open>ImportError\<close> stands for the class
  and its subclasses (a missing module raises \<^verbatim>\<open>ModuleNotFoundError\<close>).\<close>

datatype error =
    ImportError string
  | RuntimeError string
  | HTTPError nat string
  | JSONDecodeError
  | AssertionError json
  | TypeError string
  | KeyError string
  | ValueError string
  | CheckError string
  | ArrowInvalid string
  | ConnectionError string
  | DagsterRunNotFoundError string
  | Exception string error

section \<open>The cost uploader\<close>

subsection \<open>Columnar tables\<close>

text \<open>A \<^verbatim>\<open>CostRecord\<close> is the tuple \<^verbatim>\<open>(opaque_id, cost, query_id)\<close> of
  \<^verbatim>\<open>List[Tuple[str, float, str]]\<close>.\<close>

type_synonym CostRecord = "string \<times> float64 \<times> string"

datatype cell = CStr string | CFloat float64

record table =
  column_names :: "string list"
  columns :: "cell list list"

text \<open>\<^verbatim>\<open>pa.Table.from_arrays(arrays, names)\<close>: the library refuses a number of names that
  differs from the number of arrays, and arrays of unequal length.\<close>

definition from_arrays :: "cell list list \<Rightarrow> string list \<Rightarrow> error + table" where
  "from_arrays arrays names =
     (if length names \<noteq> length arrays
      then Inl (ValueError ''Length of names does not match length of arrays'')
      else if \<not> list_all (\<lambda>a. length a = length (hd arrays)) arrays
      then Inl (ArrowInvalid ''Column length mismatch'')
      else Inr \<lparr>column_names = names, columns = arrays\<rparr>)"

definition num_rows :: "table \<Rightarrow> nat" where
  "num_rows t = (case columns t of [] \<Rightarrow> 0 | c # _ \<Rightarrow> length c)"

definition column :: "table \<Rightarrow> string \<Rightarrow> cell list option" where
  "column t name = map_of (zip (column_names t) (columns t)) name"

text \<open>Row \<open>i\<close> of a table, as the list of its named cells.\<close>

definition row :: "table \<Rightarrow> nat \<Rightarrow> (string \<times> cell) list" where
  "row t i = zip (column_names t) (map (\<lambda>c. c ! i) (columns t))"

definition well_formed :: "table \<Rightarrow> bool" where
  "well_formed t \<longleftrightarrow>
     length (column_names t) = length (columns t) \<and>
     list_all (\<lambda>c. length c = num_rows t) (columns t)"

subsection \<open>The instance, the HTTP response and the effects\<close>

text \<open>What \<^verbatim>\<open>DagsterCloudAgentInstance\<close> adds to a \<^verbatim>\<open>DagsterInstance\<close> and the uploader
  reads. \<open>dagster_cloud_api_headers\<close> is the value of the call with the deployment scope.\<close>

record cloud_agent =
  dagster_cloud_gen_insights_url_url :: string
  dagster_cloud_api_headers :: "(string \<times> string) list"
  dagster_cloud_api_timeout :: int
  dagster_cloud_api_proxies :: "(string \<times> string) list option"

text \<open>A run record of the framework, as far as the launcher reads it.\<close>

record run =
  run_id :: string
  is_finished :: bool
  tags :: "(string \<times> string) list"

text \<open>A \<^verbatim>\<open>DagsterInstance\<close>. \<open>cloud_agent_part\<close> is \<open>Some\<close> exactly for an instance of the
  cloud-agent class, so \<^verbatim>\<open>isinstance(instance, DagsterCloudAgentInstance)\<close> is
  \<open>cloud_agent_part inst \<noteq> None\<close>. \<open>run_storage\<close> is what \<^verbatim>\<open>get_run_by_id\<close> reads, and
  \<open>get_ref\<close> the value of \<^verbatim>\<open>get_ref()\<close>.\<close>

record dagster_instance =
  cloud_agent_part :: "cloud_agent option"
  get_ref :: string
  run_storage :: "(string \<times> run) list"

record response =
  status_code :: nat
  reason :: string
  body :: "json option"

text \<open>The calls that leave the program, in the order they are made.\<close>

datatype event =
    CreateTempDir string
  | WriteTable string table
  | PostUploadUrl string "(string \<times> string) list" int "(string \<times> string) list option"
  | PostFile json json string table
  | RemoveTempDir string
  | LaunchProcess "string list"
  | KillProcess int
  | AddRunTags string "(string \<times> string) list"
  | ReportRunCanceling run

text \<open>A computation either raises or returns, and leaves a trace of the calls made.\<close>

type_synonym 'a io = "(error + 'a) \<times> event list"

definition io_return :: "'a \<Rightarrow> 'a io" where
  "io_return x = (Inr x, [])"

definition io_raise :: "error \<Rightarrow> 'a io" where
  "io_raise e = (Inl e, [])"

definition io_lift :: "error + 'a \<Rightarrow> 'a io" where
  "io_lift r = (r, [])"

definition io_call :: "event \<Rightarrow> error + 'a \<Rightarrow> 'a io" where
  "io_call ev outcome = (outcome, [ev])"

definition io_bind :: "'a io \<Rightarrow> ('a \<Rightarrow> 'b io) \<Rightarrow> 'b io" where
  "io_bind m f =
     (case m of
        (Inl e, tr) \<Rightarrow> (Inl e, tr)
      | (Inr x, tr) \<Rightarrow> (case f x of (r, tr') \<Rightarrow> (r, tr @ tr')))"

text \<open>What the uploader cannot decide by itself: which modules import, the name of the
  temporary directory, and what the session's two POST calls do (raise, or return a
  response).\<close>

record upload_env =
  importable :: "string \<Rightarrow> bool"
  temp_dir :: string
  post_url_outcome :: "error + response"
  post_file_outcome :: "error + response"

record execution_context =
  ctx_instance :: dagster_instance

subsection \<open>Python operators on the parsed response\<close>

fun contains_str :: "string \<Rightarrow> string \<Rightarrow> bool" where
  "contains_str k [] = (k = [])"
| "contains_str k (c # cs) = (take (length k) (c # cs) = k \<or> contains_str k cs)"

text \<open>\<^verbatim>\<open>k in v\<close> for a string \<open>k\<close>: key membership on a dict, element membership on a list,
  substring on a string, \<^verbatim>\<open>TypeError\<close> on everything else.\<close>

fun py_in :: "string \<Rightarrow> json \<Rightarrow> error + bool" where
  "py_in k (JObj kvs) = Inr (map_of kvs k \<noteq> None)"
| "py_in k (JArr xs) = Inr (List.member xs (JStr k))"
| "py_in k (JStr s) = Inr (contains_str k s)"
| "py_in k _ = Inl (TypeError ''argument is not iterable'')"

text \<open>\<^verbatim>\<open>v[k]\<close> for a string \<open>k\<close>.\<close>

fun py_getitem :: "json \<Rightarrow> string \<Rightarrow> error + json" where
  "py_getitem (JObj kvs) k = (case map_of kvs k of None \<Rightarrow> Inl (KeyError k) | Some v \<Rightarrow> Inr v)"
| "py_getitem (JArr xs) k = Inl (TypeError ''list indices must be integers or slices, not str'')"
| "py_getitem (JStr s) k = Inl (TypeError ''string indices must be integers'')"
| "py_getitem _ k = Inl (TypeError ''object is not subscriptable'')"

text \<open>\<^verbatim>\<open>resp.json()\<close>: raises when the body is not a JSON document.\<close>

definition response_json :: "response \<Rightarrow> error + json" where
  "response_json resp = (case body resp of None \<Rightarrow> Inl JSONDecodeError | Some v \<Rightarrow> Inr v)"

text \<open>\<^verbatim>\<open>os.path.join(a, b)\<close> for a relative \<open>b\<close>.\<close>

definition path_join :: "string \<Rightarrow> string \<Rightarrow> string" where
  "path_join a b = (if a = [] \<or> last a = CHR ''/'' then a @ b else a @ ''/'' @ b)"

subsection \<open>The functions of \<^verbatim>\<open>metrics_utils.py\<close>\<close>

text \<open>Modelled from the spec: \<^verbatim>\<open>raise_http_error\<close> of \<^verbatim>\<open>dagster_cloud_cli.core.errors\<close> is
  not among the sources. The specification says of it: a response that is not a success
  status (2xx) fails with an HTTP error with response-derived diagnostic detail.\<close>

definition is_success :: "response \<Rightarrow> bool" where
  "is_success resp \<longleftrightarrow> 200 \<le> status_code resp \<and> status_code resp < 300"

definition raise_http_error :: "response \<Rightarrow> error + unit" where
  "raise_http_error resp =
     (if is_success resp then Inr () else Inl (HTTPError (status_code resp) (reason resp)))"

definition get_post_request_params ::
  "dagster_instance \<Rightarrow>
     error + (string \<times> (string \<times> string) list \<times> int \<times> (string \<times> string) list option)" where
  "get_post_request_params inst =
     (case cloud_agent_part inst of
        None \<Rightarrow> Inl (RuntimeError ''This asset only functions in a running Dagster Cloud instance'')
      | Some c \<Rightarrow>
          Inr (dagster_cloud_gen_insights_url_url c,
               dagster_cloud_api_headers c,
               dagster_cloud_api_timeout c,
               dagster_cloud_api_proxies c))"

text \<open>Lines 79 to 89: the four list comprehensions and the table made of them.\<close>

definition cost_table :: "string \<Rightarrow> CostRecord list \<Rightarrow> error + table" where
  "cost_table metric_name cost_information =
     (let opaque_ids = map (\<lambda>(opaque_id, _, _). CStr opaque_id) cost_information;
          costs = map (\<lambda>(_, cost, _). CFloat cost) cost_information;
          query_ids = map (\<lambda>(_, _, query_id). CStr query_id) cost_information;
          metric_names = map (\<lambda>(_, _, _). CStr metric_name) cost_information
      in from_arrays [opaque_ids, costs, metric_names, query_ids]
           [''opaque_id'', ''cost'', ''metric_name'', ''query_id''])"

text \<open>Line 100: \<^verbatim>\<open>assert "url" in resp_data and "fields" in resp_data, resp_data\<close>.\<close>

definition assert_url_and_fields :: "json \<Rightarrow> error + unit" where
  "assert_url_and_fields resp_data =
     (case py_in ''url'' resp_data of
        Inl e \<Rightarrow> Inl e
      | Inr False \<Rightarrow> Inl (AssertionError resp_data)
      | Inr True \<Rightarrow>
         (case py_in ''fields'' resp_data of
            Inl e \<Rightarrow> Inl e
          | Inr False \<Rightarrow> Inl (AssertionError resp_data)
          | Inr True \<Rightarrow> Inr ()))"

text \<open>The body of the \<^verbatim>\<open>with tempfile.TemporaryDirectory()\<close> block, lines 79 to 107.\<close>

definition upload_in_temp_dir ::
  "upload_env \<Rightarrow> execution_context \<Rightarrow> string \<Rightarrow> CostRecord list \<Rightarrow> string \<Rightarrow> unit io" where
  "upload_in_temp_dir env ctx metric_name cost_information dir =
     io_bind (io_lift (cost_table metric_name cost_information)) (\<lambda>tbl.
     let cost_pq_file = path_join dir ''cost.parquet'' in
     io_bind (io_call (WriteTable cost_pq_file tbl) (Inr ())) (\<lambda>_.
     io_bind (io_lift (get_post_request_params (ctx_instance ctx))) (\<lambda>(url, headers, timeout, proxies).
     io_bind (io_call (PostUploadUrl url headers timeout proxies) (post_url_outcome env)) (\<lambda>resp.
     io_bind (io_lift (raise_http_error resp)) (\<lambda>_.
     io_bind (io_lift (response_json resp)) (\<lambda>resp_data.
     io_bind (io_lift (assert_url_and_fields resp_data)) (\<lambda>_.
     io_bind (io_lift (py_getitem resp_data ''url'')) (\<lambda>signed_url.
     io_bind (io_lift (py_getitem resp_data ''fields'')) (\<lambda>fields.
     io_bind (io_call (PostFile signed_url fields cost_pq_file tbl) (post_file_outcome env)) (\<lambda>_.
     io_return ()))))))))))"

definition upload_cost_information ::
  "upload_env \<Rightarrow> execution_context \<Rightarrow> string \<Rightarrow> CostRecord list \<Rightarrow> unit io" where
  "upload_cost_information env ctx metric_name cost_information =
     (if \<not> importable env ''pyarrow'' then io_raise (ImportError ''pyarrow'')
      else if \<not> importable env ''pyarrow.parquet'' then io_raise (ImportError ''pyarrow.parquet'')
      else
        (case upload_in_temp_dir env ctx metric_name cost_information (temp_dir env) of
           (r, tr) \<Rightarrow> (r, [CreateTempDir (temp_dir env)] @ tr @ [RemoveTempDir (temp_dir env)])))"

definition install_message :: string where
  "install_message =
     ''Dagster insights dependencies not installed. Install dagster-cloud[insights] to use this feature.''"

definition put_cost_information ::
  "upload_env \<Rightarrow> execution_context \<Rightarrow> string \<Rightarrow> CostRecord list \<Rightarrow> float64 \<Rightarrow> float64 \<Rightarrow> unit io" where
  "put_cost_information env ctx metric_name cost_information start_time end_time =
     (case upload_cost_information env ctx metric_name cost_information of
        (Inl (ImportError m), tr) \<Rightarrow> (Inl (Exception install_message (ImportError m)), tr)
      | other \<Rightarrow> other)"

text \<open>Readers of a trace.\<close>

definition written_tables :: "event list \<Rightarrow> table list" where
  "written_tables tr = concat (map (\<lambda>ev. case ev of WriteTable p t \<Rightarrow> [t] | _ \<Rightarrow> []) tr)"

definition is_network_call :: "event \<Rightarrow> bool" where
  "is_network_call ev = (case ev of PostUploadUrl u h t p \<Rightarrow> True | PostFile u f p t \<Rightarrow> True | _ \<Rightarrow> False)"

definition is_file_post :: "event \<Rightarrow> bool" where
  "is_file_post ev = (case ev of PostFile u f p t \<Rightarrow> True | _ \<Rightarrow> False)"

definition is_process_call :: "event \<Rightarrow> bool" where
  "is_process_call ev = (case ev of LaunchProcess a \<Rightarrow> True | KillProcess p \<Rightarrow> True | _ \<Rightarrow> False)"

definition deps_installed :: "upload_env \<Rightarrow> bool" where
  "deps_installed env \<longleftrightarrow> importable env ''pyarrow'' \<and> importable env ''pyarrow.parquet''"

section \<open>The process run launcher\<close>

subsection \<open>Conversions between integers and strings\<close>

text \<open>
  The interpreter caps the number of digits in a conversion between \<^verbatim>\<open>int\<close> and \<^verbatim>\<open>str\<close>:
  with the setting \<^verbatim>\<open>int_max_str_digits\<close> at \<open>lim\<close> (4300 unless changed, 0 for no
  cap, as in interpreters that predate the setting), a conversion of more than 640 digits
  and more than \<open>lim\<close> digits raises \<^verbatim>\<open>ValueError\<close>.
\<close>

definition exceeds_cap :: "nat \<Rightarrow> nat \<Rightarrow> bool" where
  "exceeds_cap lim digits \<longleftrightarrow> 640 < digits \<and> 0 < lim \<and> lim < digits"

text \<open>\<^verbatim>\<open>str(n)\<close> for an integer: decimal digits, with a minus sign below zero.
  \<open>digit_char\<close> is only ever applied to a digit below ten.\<close>

definition digit_char :: "nat \<Rightarrow> char" where
  "digit_char d = ''0123456789'' ! d"

fun nat_digits :: "nat \<Rightarrow> string" where
  "nat_digits n = (if n < 10 then [digit_char n] else nat_digits (n div 10) @ [digit_char (n mod 10)])"

declare nat_digits.simps [simp del]

definition decimal :: "int \<Rightarrow> string" where
  "decimal n = (if n < 0 then CHR ''-'' # nat_digits (nat (- n)) else nat_digits (nat n))"

definition py_str :: "nat \<Rightarrow> int \<Rightarrow> error + string" where
  "py_str lim n =
     (if exceeds_cap lim (length (nat_digits (nat \<bar>n\<bar>)))
      then Inl (ValueError ''Exceeds the limit for integer string conversion'')
      else Inr (decimal n))"

text \<open>
  \<^verbatim>\<open>int(s)\<close> for a string, base ten: whitespace around the literal is dropped, one sign
  may come first, and the digits may be grouped by single underscores, never at either
  end. Anything else raises \<^verbatim>\<open>ValueError\<close>, here \<open>None\<close>, and so does a literal whose
  digits exceed the cap. The whitespace that \<^verbatim>\<open>int\<close> drops is, below code point 256, the
  characters 9 to 13, 32, 133 and 160; the separators 28 to 31 are whitespace for
  \<^verbatim>\<open>str.isspace\<close> but not for \<^verbatim>\<open>int\<close>. The only decimal digits below code point 256 are
  \<open>0\<close> to \<open>9\<close>.
\<close>

definition is_space :: "char \<Rightarrow> bool" where
  "is_space c \<longleftrightarrow> (of_char c :: nat) \<in> {9, 10, 11, 12, 13, 32, 133, 160}"

definition is_digit :: "char \<Rightarrow> bool" where
  "is_digit c \<longleftrightarrow> 48 \<le> (of_char c :: nat) \<and> (of_char c :: nat) \<le> 57"

definition digit_value :: "char \<Rightarrow> nat" where
  "digit_value c = of_char c - 48"

definition strip :: "string \<Rightarrow> string" where
  "strip s = rev (dropWhile is_space (rev (dropWhile is_space s)))"

fun scan_digits :: "string \<Rightarrow> bool" where
  "scan_digits [] = False"
| "scan_digits [c] = is_digit c"
| "scan_digits (c # d # cs) =
     (is_digit c \<and> (if d = CHR ''_'' then scan_digits cs else scan_digits (d # cs)))"

definition digits_value :: "string \<Rightarrow> nat" where
  "digits_value ds = foldl (\<lambda>acc c. 10 * acc + digit_value c) 0 (filter is_digit ds)"

definition py_int :: "nat \<Rightarrow> string \<Rightarrow> int option" where
  "py_int lim s =
     (let t = strip s;
          (negative, ds) =
            (case t of
               [] \<Rightarrow> (False, [])
             | c # rest \<Rightarrow>
                 if c = CHR ''-'' then (True, rest)
                 else if c = CHR ''+'' then (False, rest)
                 else (False, t))
      in if scan_digits ds \<and> \<not> exceeds_cap lim (length (filter is_digit ds))
         then Some (if negative then - int (digits_value ds) else int (digits_value ds))
         else None)"

text \<open>
  What the words ``the stringified process id'' say, stated without \<open>decimal\<close>: the string
  is an optional minus sign and then digits only, with no leading zero except in \<open>0\<close>
  itself, and the digits denote the number.
\<close>

definition plain_decimal_of :: "string \<Rightarrow> nat \<Rightarrow> bool" where
  "plain_decimal_of ds m \<longleftrightarrow>
     ds \<noteq> [] \<and> list_all is_digit ds \<and> (hd ds = CHR ''0'' \<longrightarrow> ds = ''0'') \<and> digits_value ds = m"

definition is_decimal_of :: "string \<Rightarrow> int \<Rightarrow> bool" where
  "is_decimal_of s n \<longleftrightarrow>
     (case s of
        [] \<Rightarrow> False
      | c # cs \<Rightarrow>
          if c = CHR ''-'' then n < 0 \<and> plain_decimal_of cs (nat (- n))
          else 0 \<le> n \<and> plain_decimal_of s (nat n))"

subsection \<open>What the launcher calls\<close>

text \<open>Modelled from the spec: the enumeration \<^verbatim>\<open>TaskStatus\<close> of
  \<^verbatim>\<open>dagster_cloud.execution.utils\<close> is not among the sources. The specification gives it
  the members RUNNING and NOT_RUNNING.\<close>

datatype TaskStatus = RUNNING | NOT_RUNNING

record LaunchRunContext =
  pipeline_run :: run
  pipeline_code_origin :: "string option"

record ExecuteRunArgs =
  pipeline_origin :: string
  pipeline_run_id :: string
  instance_ref :: string

text \<open>What the launcher cannot decide by itself: the command line the framework derives
  from the run arguments, the process id the operating system hands out (a 32-bit
  quantity), the liveness of a process, and the interpreter's cap on integer strings.\<close>

record process_env =
  get_command_args :: "ExecuteRunArgs \<Rightarrow> string list"
  spawned_pid :: "string list \<Rightarrow> 32 word"
  process_status :: "int \<Rightarrow> TaskStatus"
  int_max_str_digits :: nat

text \<open>Modelled from the spec: \<^verbatim>\<open>launch_process\<close>, \<^verbatim>\<open>check_on_process\<close> and
  \<^verbatim>\<open>kill_process\<close> of \<^verbatim>\<open>dagster_cloud.execution.utils.process\<close> are not among the sources.
  The specification says: launching spawns a new operating-system process with the
  arguments and yields its process id (a number the operating system keeps in 32 bits);
  the check queries process liveness by pid; killing sends a termination signal to the
  process by pid and returns without waiting.\<close>

definition launch_process :: "process_env \<Rightarrow> string list \<Rightarrow> int io" where
  "launch_process env args = io_call (LaunchProcess args) (Inr (uint (spawned_pid env args)))"

definition check_on_process :: "process_env \<Rightarrow> int \<Rightarrow> TaskStatus" where
  "check_on_process env pid = process_status env pid"

definition kill_process :: "int \<Rightarrow> unit io" where
  "kill_process pid = io_call (KillProcess pid) (Inr ())"

text \<open>\<^verbatim>\<open>check.not_none\<close> of the framework: raises its check error on \<^verbatim>\<open>None\<close>.\<close>

definition not_none :: "'a option \<Rightarrow> error + 'a" where
  "not_none v = (case v of None \<Rightarrow> Inl (CheckError ''Expected non-None value'') | Some x \<Rightarrow> Inr x)"

text \<open>Modelled from the spec: the instance's run storage and its methods
  \<^verbatim>\<open>get_run_by_id\<close>, \<^verbatim>\<open>add_run_tags\<close> and \<^verbatim>\<open>report_run_canceling\<close> belong to the framework and
  are not among the sources. The specification says that the pid is kept as a
  string-valued tag on the externally owned run record, read and written through the
  instance's run-tag interface, and that the last write wins. The framework's
  \<^verbatim>\<open>add_run_tags\<close> raises its run-not-found error for a run id that is not in the storage;
  otherwise it merges the new tags into the stored run's tags, a new value replacing an old
  one under the same key.\<close>

definition get_run_by_id :: "dagster_instance \<Rightarrow> string \<Rightarrow> run option" where
  "get_run_by_id inst rid = map_of (run_storage inst) rid"

definition merge_tags :: "(string \<times> string) list \<Rightarrow> (string \<times> string) list \<Rightarrow> (string \<times> string) list" where
  "merge_tags old new = new @ filter (\<lambda>(k, v). map_of new k = None) old"

definition add_run_tags ::
  "dagster_instance \<Rightarrow> string \<Rightarrow> (string \<times> string) list \<Rightarrow> error + dagster_instance" where
  "add_run_tags inst rid new_tags =
     (case get_run_by_id inst rid of
        None \<Rightarrow> Inl (DagsterRunNotFoundError rid)
      | Some found \<Rightarrow>
          Inr (inst\<lparr>run_storage :=
            map (\<lambda>(k, r). if k = rid then (k, r\<lparr>tags := merge_tags (tags r) new_tags\<rparr>) else (k, r))
              (run_storage inst)\<rparr>))"

subsection \<open>The methods of \<^verbatim>\<open>CloudProcessRunLauncher\<close>\<close>

definition PID_TAG :: string where
  "PID_TAG = ''process/pid''"

text \<open>\<open>launch_run\<close> also returns the instance, whose run storage it changes. Line 25
  converts the pid, then calls \<^verbatim>\<open>add_run_tags\<close>; an error of either escapes after the
  process has been spawned.\<close>

definition launch_run ::
  "process_env \<Rightarrow> dagster_instance \<Rightarrow> LaunchRunContext \<Rightarrow> unit io \<times> dagster_instance" where
  "launch_run env inst ctx =
     (let r = pipeline_run ctx in
      case not_none (pipeline_code_origin ctx) of
        Inl e \<Rightarrow> (io_raise e, inst)
      | Inr origin \<Rightarrow>
          (let run_args = \<lparr>pipeline_origin = origin, pipeline_run_id = run_id r,
                           instance_ref = get_ref inst\<rparr>;
               args = get_command_args env run_args
           in case launch_process env args of
                (Inl e, tr) \<Rightarrow> ((Inl e, tr), inst)
              | (Inr pid, tr) \<Rightarrow>
                  (case py_str (int_max_str_digits env) pid of
                     Inl e \<Rightarrow> ((Inl e, tr), inst)
                   | Inr pid_str \<Rightarrow>
                       (case add_run_tags inst (run_id r) [(PID_TAG, pid_str)] of
                          Inl e \<Rightarrow>
                            ((Inl e, tr @ [AddRunTags (run_id r) [(PID_TAG, pid_str)]]), inst)
                        | Inr inst' \<Rightarrow>
                            ((Inr (), tr @ [AddRunTags (run_id r) [(PID_TAG, pid_str)]]), inst')))))"

text \<open>\<open>_get_pid\<close>: \<open>None\<close> for no run, a finished run or a run without the tag; otherwise
  the integer the tag converts to, or the conversion's \<^verbatim>\<open>ValueError\<close>.\<close>

definition get_pid :: "process_env \<Rightarrow> run option \<Rightarrow> error + int option" where
  "get_pid env r =
     (case r of
        None \<Rightarrow> Inr None
      | Some r \<Rightarrow>
          if is_finished r then Inr None
          else
            (case map_of (tags r) PID_TAG of
               None \<Rightarrow> Inr None
             | Some v \<Rightarrow>
                 (case py_int (int_max_str_digits env) v of
                    None \<Rightarrow> Inl (ValueError v)
                  | Some n \<Rightarrow> Inr (Some n))))"

text \<open>In both methods below \<^verbatim>\<open>if not pid\<close> holds for \<^verbatim>\<open>None\<close> and for the integer zero.\<close>

definition can_terminate :: "process_env \<Rightarrow> dagster_instance \<Rightarrow> string \<Rightarrow> error + bool" where
  "can_terminate env inst rid =
     (case get_run_by_id inst rid of
        None \<Rightarrow> Inr False
      | Some r \<Rightarrow>
          (case get_pid env (Some r) of
             Inl e \<Rightarrow> Inl e
           | Inr None \<Rightarrow> Inr False
           | Inr (Some pid) \<Rightarrow>
               if pid = 0 then Inr False
               else Inr (check_on_process env pid = RUNNING)))"

definition terminate :: "process_env \<Rightarrow> dagster_instance \<Rightarrow> string \<Rightarrow> bool io" where
  "terminate env inst rid =
     (case get_run_by_id inst rid of
        None \<Rightarrow> io_return False
      | Some r \<Rightarrow>
          io_bind (io_lift (get_pid env (Some r))) (\<lambda>p.
            case p of
              None \<Rightarrow> io_return False
            | Some pid \<Rightarrow>
                if pid = 0 then io_return False
                else
                  io_bind (io_call (ReportRunCanceling r) (Inr ())) (\<lambda>_.
                  io_bind (kill_process pid) (\<lambda>_.
                  io_return True))))"

section \<open>Concrete inputs\<close>

text \<open>Inputs on which the theorems below are exercised.\<close>

definition example_cloud_instance :: dagster_instance where
  "example_cloud_instance =
     \<lparr>cloud_agent_part = Some \<lparr>dagster_cloud_gen_insights_url_url = ''https://org.example/gen_insights_url'',
                                dagster_cloud_api_headers = [(''Dagster-Cloud-Api-Token'', ''token'')],
                                dagster_cloud_api_timeout = 60,
                                dagster_cloud_api_proxies = None\<rparr>,
      get_ref = ''ref'', run_storage = []\<rparr>"

definition example_records :: "CostRecord list" where
  "example_records = [(''asset_a'', 1, ''query_1''), (''asset_b'', 2, ''query_2'')]"

definition example_upload_env :: upload_env where
  "example_upload_env =
     \<lparr>importable = (\<lambda>m. True), temp_dir = ''/tmp/d'',
      post_url_outcome = Inr \<lparr>status_code = 200, reason = ''OK'',
         body = Some (JObj [(''url'', JStr ''https://bucket.example''), (''fields'', JObj [(''key'', JStr ''k'')])])\<rparr>,
      post_file_outcome = Inr \<lparr>status_code = 403, reason = ''Forbidden'', body = None\<rparr>\<rparr>"

definition example_http_failure_env :: upload_env where
  "example_http_failure_env =
     \<lparr>importable = (\<lambda>m. True), temp_dir = ''/tmp/d'',
      post_url_outcome = Inr \<lparr>status_code = 500, reason = ''Internal Server Error'', body = None\<rparr>,
      post_file_outcome = Inr \<lparr>status_code = 204, reason = ''No Content'', body = None\<rparr>\<rparr>"

definition example_malformed_env :: upload_env where
  "example_malformed_env =
     \<lparr>importable = (\<lambda>m. True), temp_dir = ''/tmp/d'',
      post_url_outcome = Inr \<lparr>status_code = 200, reason = ''OK'',
         body = Some (JObj [(''url'', JStr ''https://bucket.example'')])\<rparr>,
      post_file_outcome = Inr \<lparr>status_code = 204, reason = ''No Content'', body = None\<rparr>\<rparr>"

definition example_no_deps_env :: upload_env where
  "example_no_deps_env =
     \<lparr>importable = (\<lambda>m. False), temp_dir = ''/tmp/d'',
      post_url_outcome = Inl (ConnectionError ''unreachable''),
      post_file_outcome = Inl (ConnectionError ''unreachable'')\<rparr>"

definition example_process_env :: process_env where
  "example_process_env =
     \<lparr>get_command_args =
        (\<lambda>a. [''dagster'', ''api'', ''execute_run'', pipeline_origin a, pipeline_run_id a, instance_ref a]),
      spawned_pid = (\<lambda>args. 4242),
      process_status = (\<lambda>pid. if pid = 42 \<or> pid = 0 then RUNNING else NOT_RUNNING),
      int_max_str_digits = 4300\<rparr>"

definition example_run :: run where
  "example_run = \<lparr>run_id = ''run_1'', is_finished = False, tags = [(''process/pid'', ''42'')]\<rparr>"

definition example_run_zero :: run where
  "example_run_zero = \<lparr>run_id = ''run_zero'', is_finished = False, tags = [(''process/pid'', ''0'')]\<rparr>"

definition example_run_bad_tag :: run where
  "example_run_bad_tag = \<lparr>run_id = ''run_bad'', is_finished = False, tags = [(''process/pid'', ''abc'')]\<rparr>"

definition example_plain_instance :: dagster_instance where
  "example_plain_instance =
     \<lparr>cloud_agent_part = None, get_ref = ''ref'',
      run_storage =
        [(''run_1'', example_run), (''run_zero'', example_run_zero), (''run_bad'', example_run_bad_tag)]\<rparr>"

definition example_launch_context :: LaunchRunContext where
  "example_launch_context = \<lparr>pipeline_run = example_run, pipeline_code_origin = Some ''origin''\<rparr>"

section \<open>Properties of the cost uploader\<close>

lemma cost_table_eq:
  "cost_table m recs = Inr \<lparr>column_names = [''opaque_id'', ''cost'', ''metric_name'', ''query_id''],
      columns = [map (\<lambda>r. CStr (fst r)) recs, map (\<lambda>r. CFloat (fst (snd r))) recs,
                 map (\<lambda>r. CStr m) recs, map (\<lambda>r. CStr (snd (snd r))) recs]\<rparr>"
  by (simp add: cost_table_def from_arrays_def case_prod_beta)

lemma written_tables_simps:
  "written_tables [] = []"
  "written_tables (WriteTable p t # tr) = t # written_tables tr"
  "written_tables (CreateTempDir d # tr) = written_tables tr"
  "written_tables (RemoveTempDir d # tr) = written_tables tr"
  "written_tables (PostUploadUrl u h ti pr # tr) = written_tables tr"
  "written_tables (PostFile su f p t # tr) = written_tables tr"
  "written_tables (tr @ tr') = written_tables tr @ written_tables tr'"
  by (simp_all add: written_tables_def)

lemmas io_defs = io_bind_def io_lift_def io_call_def io_return_def io_raise_def

lemma upload_in_temp_dir_written:
  "written_tables (snd (upload_in_temp_dir env ctx m recs d)) =
     [\<lparr>column_names = [''opaque_id'', ''cost'', ''metric_name'', ''query_id''],
      columns = [map (\<lambda>r. CStr (fst r)) recs, map (\<lambda>r. CFloat (fst (snd r))) recs,
                 map (\<lambda>r. CStr m) recs, map (\<lambda>r. CStr (snd (snd r))) recs]\<rparr>]"
  unfolding upload_in_temp_dir_def cost_table_eq
  by (simp add: io_defs written_tables_simps Let_def split: sum.splits prod.splits)

lemma upload_written:
  "written_tables (snd (upload_cost_information env ctx m recs)) =
     (if deps_installed env then
     [\<lparr>column_names = [''opaque_id'', ''cost'', ''metric_name'', ''query_id''],
      columns = [map (\<lambda>r. CStr (fst r)) recs, map (\<lambda>r. CFloat (fst (snd r))) recs,
                 map (\<lambda>r. CStr m) recs, map (\<lambda>r. CStr (snd (snd r))) recs]\<rparr>] else [])"
  using upload_in_temp_dir_written[of env ctx m recs "temp_dir env"]
  by (auto simp add: upload_cost_information_def deps_installed_def io_defs written_tables_simps split: prod.splits)

text \<open>
  Claim C1. For every list of cost records, the empty one included, and every metric
  name, each table the upload writes is well formed and has one row per record: its
  \<open>opaque_id\<close>, \<open>cost\<close> and \<open>query_id\<close> columns are the record fields in order and its
  \<open>metric_name\<close> column repeats the metric name. Once the optional dependencies import,
  exactly one table is written (before that point the upload has written nothing).
\<close>

theorem upload_writes_one_row_per_record:
  "(\<forall>t \<in> set (written_tables (snd (upload_cost_information env ctx metric_name cost_information))).
      well_formed t \<and>
      num_rows t = length cost_information \<and>
      column t ''opaque_id'' = Some (map (\<lambda>(opaque_id, cost, query_id). CStr opaque_id) cost_information) \<and>
      column t ''cost'' = Some (map (\<lambda>(opaque_id, cost, query_id). CFloat cost) cost_information) \<and>
      column t ''query_id'' = Some (map (\<lambda>(opaque_id, cost, query_id). CStr query_id) cost_information) \<and>
      column t ''metric_name'' = Some (replicate (length cost_information) (CStr metric_name)) \<and>
      (\<forall>i < length cost_information.
         row t i = (case cost_information ! i of (opaque_id, cost, query_id) \<Rightarrow>
           [(''opaque_id'', CStr opaque_id), (''cost'', CFloat cost),
            (''metric_name'', CStr metric_name), (''query_id'', CStr query_id)])))
   \<and> (deps_installed env \<longrightarrow>
        length (written_tables (snd (upload_cost_information env ctx metric_name cost_information))) = 1)"
  unfolding upload_written
  by (auto simp add: well_formed_def num_rows_def column_def row_def case_prod_beta map_replicate_const)

theorem upload_writes_one_row_per_record_witness:
  "deps_installed example_upload_env \<and>
   written_tables (snd (upload_cost_information example_upload_env
        \<lparr>ctx_instance = example_cloud_instance\<rparr> ''snowflake_credits'' example_records)) =
     [\<lparr>column_names = [''opaque_id'', ''cost'', ''metric_name'', ''query_id''],
       columns = [[CStr ''asset_a'', CStr ''asset_b''], [CFloat 1, CFloat 2],
                  [CStr ''snowflake_credits'', CStr ''snowflake_credits''],
                  [CStr ''query_1'', CStr ''query_2'']]\<rparr>] \<and>
   num_rows \<lparr>column_names = [''opaque_id'', ''cost'', ''metric_name'', ''query_id''],
       columns = [[CStr ''asset_a'', CStr ''asset_b''], [CFloat 1, CFloat 2],
                  [CStr ''snowflake_credits'', CStr ''snowflake_credits''],
                  [CStr ''query_1'', CStr ''query_2'']]\<rparr> = 2 \<and>
   (\<exists>t. written_tables (snd (upload_cost_information example_upload_env
        \<lparr>ctx_instance = example_cloud_instance\<rparr> ''snowflake_credits'' [])) = [t] \<and> num_rows t = 0 \<and> well_formed t)"
proof -
  have d: "deps_installed example_upload_env"
    by (simp add: deps_installed_def example_upload_env_def)
  have w: "written_tables (snd (upload_cost_information example_upload_env
        \<lparr>ctx_instance = example_cloud_instance\<rparr> ''snowflake_credits'' example_records)) =
     [\<lparr>column_names = [''opaque_id'', ''cost'', ''metric_name'', ''query_id''],
       columns = [[CStr ''asset_a'', CStr ''asset_b''], [CFloat 1, CFloat 2],
                  [CStr ''snowflake_credits'', CStr ''snowflake_credits''],
                  [CStr ''query_1'', CStr ''query_2'']]\<rparr>]"
    by (simp add: upload_cost_information_def upload_in_temp_dir_def cost_table_def from_arrays_def
        example_upload_env_def example_cloud_instance_def example_records_def io_defs
        get_post_request_params_def raise_http_error_def is_success_def response_json_def
        assert_url_and_fields_def written_tables_def path_join_def Let_def)
  note main = upload_writes_one_row_per_record [of example_upload_env
        "\<lparr>ctx_instance = example_cloud_instance\<rparr>" "''snowflake_credits''"]
  from main [of example_records] w have n: "num_rows \<lparr>column_names = [''opaque_id'', ''cost'', ''metric_name'', ''query_id''],
       columns = [[CStr ''asset_a'', CStr ''asset_b''], [CFloat 1, CFloat 2],
                  [CStr ''snowflake_credits'', CStr ''snowflake_credits''],
                  [CStr ''query_1'', CStr ''query_2'']]\<rparr> = 2"
    by (simp add: example_records_def)
  from main [of "[]"] d have e: "\<exists>t. written_tables (snd (upload_cost_information example_upload_env
        \<lparr>ctx_instance = example_cloud_instance\<rparr> ''snowflake_credits'' [])) = [t] \<and> num_rows t = 0 \<and> well_formed t"
    by (auto simp add: length_Suc_conv)
  from d w n e show ?thesis by blast
qed

lemmas upload_defs = upload_cost_information_def upload_in_temp_dir_def cost_table_eq
  get_post_request_params_def raise_http_error_def response_json_def assert_url_and_fields_def
  deps_installed_def io_defs Let_def

lemmas example_defs = example_upload_env_def example_cloud_instance_def example_records_def
  example_http_failure_env_def example_malformed_env_def example_no_deps_env_def example_plain_instance_def

text \<open>
  Claim C5. When the request for the upload URL returns a response whose status is not a
  success status, the upload fails with the HTTP error made from that response (its
  status code and reason), and no file is posted to a signed destination.
\<close>

theorem http_error_stops_upload:
  assumes "deps_installed env"
    and "cloud_agent_part (ctx_instance ctx) = Some c"
    and "post_url_outcome env = Inr resp"
    and "\<not> is_success resp"
  shows "fst (upload_cost_information env ctx metric_name cost_information) =
           Inl (HTTPError (status_code resp) (reason resp))
         \<and> \<not> list_ex is_file_post (snd (upload_cost_information env ctx metric_name cost_information))"
  using assms by (simp add: upload_defs is_file_post_def)

theorem http_error_stops_upload_witness:
  "deps_installed example_http_failure_env
   \<and> post_url_outcome example_http_failure_env = Inr \<lparr>status_code = 500, reason = ''Internal Server Error'', body = None\<rparr>
   \<and> \<not> is_success \<lparr>status_code = 500, reason = ''Internal Server Error'', body = None\<rparr>
   \<and> fst (upload_cost_information example_http_failure_env \<lparr>ctx_instance = example_cloud_instance\<rparr>
          ''snowflake_credits'' example_records) = Inl (HTTPError 500 ''Internal Server Error'')
   \<and> \<not> list_ex is_file_post (snd (upload_cost_information example_http_failure_env
          \<lparr>ctx_instance = example_cloud_instance\<rparr> ''snowflake_credits'' example_records))"
proof -
  have d: "deps_installed example_http_failure_env"
    by (simp add: deps_installed_def example_http_failure_env_def)
  have c: "cloud_agent_part (ctx_instance \<lparr>ctx_instance = example_cloud_instance\<rparr>) =
      Some \<lparr>dagster_cloud_gen_insights_url_url = ''https://org.example/gen_insights_url'',
            dagster_cloud_api_headers = [(''Dagster-Cloud-Api-Token'', ''token'')],
            dagster_cloud_api_timeout = 60, dagster_cloud_api_proxies = None\<rparr>"
    by (simp add: example_cloud_instance_def)
  have p: "post_url_outcome example_http_failure_env =
      Inr \<lparr>status_code = 500, reason = ''Internal Server Error'', body = None\<rparr>"
    by (simp add: example_http_failure_env_def)
  have s: "\<not> is_success \<lparr>status_code = 500, reason = ''Internal Server Error'', body = None\<rparr>"
    by (simp add: is_success_def)
  from http_error_stops_upload [OF d c p s, of "''snowflake_credits''" example_records] d p s
  show ?thesis by simp
qed

text \<open>
  Claim C6. When the inner upload raises an import error, the outer entry point raises
  an exception whose message tells the user to install the \<^verbatim>\<open>insights\<close> extra, with the
  import error as its cause; every other error of the inner upload, and its normal
  return, reach the caller as they are, after the same calls.
\<close>

theorem put_cost_information_translates_import_error:
  "(\<forall>m tr. upload_cost_information env ctx metric_name cost_information = (Inl (ImportError m), tr) \<longrightarrow>
       put_cost_information env ctx metric_name cost_information start_time end_time =
         (Inl (Exception install_message (ImportError m)), tr))
   \<and> (\<forall>e tr. upload_cost_information env ctx metric_name cost_information = (Inl e, tr) \<and>
          (\<forall>m. e \<noteq> ImportError m) \<longrightarrow>
       put_cost_information env ctx metric_name cost_information start_time end_time = (Inl e, tr))
   \<and> (\<forall>tr. upload_cost_information env ctx metric_name cost_information = (Inr (), tr) \<longrightarrow>
       put_cost_information env ctx metric_name cost_information start_time end_time = (Inr (), tr))
   \<and> install_message =
       ''Dagster insights dependencies not installed. Install dagster-cloud[insights] to use this feature.''"
  by (auto simp add: put_cost_information_def install_message_def split: error.splits sum.splits)

theorem put_cost_information_translates_import_error_witness:
  "upload_cost_information example_no_deps_env \<lparr>ctx_instance = example_cloud_instance\<rparr>
      ''snowflake_credits'' example_records = (Inl (ImportError ''pyarrow''), [])
   \<and> put_cost_information example_no_deps_env \<lparr>ctx_instance = example_cloud_instance\<rparr>
      ''snowflake_credits'' example_records 0 1 =
        (Inl (Exception ''Dagster insights dependencies not installed. Install dagster-cloud[insights] to use this feature.''
           (ImportError ''pyarrow'')), [])
   \<and> fst (upload_cost_information example_http_failure_env \<lparr>ctx_instance = example_cloud_instance\<rparr>
      ''snowflake_credits'' example_records) = Inl (HTTPError 500 ''Internal Server Error'')
   \<and> fst (put_cost_information example_http_failure_env \<lparr>ctx_instance = example_cloud_instance\<rparr>
      ''snowflake_credits'' example_records 0 1) = Inl (HTTPError 500 ''Internal Server Error'')"
proof -
  have u: "upload_cost_information example_no_deps_env \<lparr>ctx_instance = example_cloud_instance\<rparr>
      ''snowflake_credits'' example_records = (Inl (ImportError ''pyarrow''), [])"
    by (simp add: upload_cost_information_def example_no_deps_env_def io_raise_def)
  obtain tr where h: "upload_cost_information example_http_failure_env \<lparr>ctx_instance = example_cloud_instance\<rparr>
      ''snowflake_credits'' example_records = (Inl (HTTPError 500 ''Internal Server Error''), tr)"
    by (simp add: upload_defs example_defs is_success_def)
  note main = put_cost_information_translates_import_error
  from main [of example_no_deps_env "\<lparr>ctx_instance = example_cloud_instance\<rparr>"
      "''snowflake_credits''" example_records 0 1] u
  have a: "put_cost_information example_no_deps_env \<lparr>ctx_instance = example_cloud_instance\<rparr>
      ''snowflake_credits'' example_records 0 1 =
        (Inl (Exception ''Dagster insights dependencies not installed. Install dagster-cloud[insights] to use this feature.''
           (ImportError ''pyarrow'')), [])"
    by simp
  from main [of example_http_failure_env "\<lparr>ctx_instance = example_cloud_instance\<rparr>"
      "''snowflake_credits''" example_records 0 1] h
  have b: "put_cost_information example_http_failure_env \<lparr>ctx_instance = example_cloud_instance\<rparr>
      ''snowflake_credits'' example_records 0 1 = (Inl (HTTPError 500 ''Internal Server Error''), tr)"
    by simp
  from u a h b show ?thesis by simp
qed

lemma assert_url_and_fields_obj:
  "assert_url_and_fields (JObj kvs) =
     (if map_of kvs ''url'' = None \<or> map_of kvs ''fields'' = None
      then Inl (AssertionError (JObj kvs)) else Inr ())"
  by (cases "map_of kvs ''url''"; cases "map_of kvs ''fields''")
     (simp_all add: assert_url_and_fields_def)

lemmas upload_obj_defs = upload_cost_information_def upload_in_temp_dir_def cost_table_eq
  get_post_request_params_def raise_http_error_def response_json_def assert_url_and_fields_obj
  deps_installed_def io_defs Let_def

text \<open>
  Claim C7. When the upload-URL response has a success status and its body parses to an
  object without the \<open>url\<close> key or without the \<open>fields\<close> key, the upload fails with the
  assertion error that carries the parsed body, which is no HTTP error, and no file is
  posted. Lemma \<open>malformed_body_never_posted\<close> covers bodies that parse to something
  other than an object.
\<close>

theorem missing_key_is_malformed_response:
  assumes "deps_installed env"
    and "cloud_agent_part (ctx_instance ctx) = Some c"
    and "post_url_outcome env = Inr resp"
    and "is_success resp"
    and "body resp = Some (JObj kvs)"
    and "map_of kvs ''url'' = None \<or> map_of kvs ''fields'' = None"
  shows "fst (upload_cost_information env ctx metric_name cost_information) =
           Inl (AssertionError (JObj kvs))
         \<and> (\<forall>code detail. fst (upload_cost_information env ctx metric_name cost_information) \<noteq>
               Inl (HTTPError code detail))
         \<and> \<not> list_ex is_file_post (snd (upload_cost_information env ctx metric_name cost_information))"
  using assms by (simp_all add: upload_obj_defs is_file_post_def)

theorem missing_key_is_malformed_response_witness:
  "deps_installed example_malformed_env
   \<and> post_url_outcome example_malformed_env =
       Inr \<lparr>status_code = 200, reason = ''OK'', body = Some (JObj [(''url'', JStr ''https://bucket.example'')])\<rparr>
   \<and> is_success \<lparr>status_code = 200, reason = ''OK'', body = Some (JObj [(''url'', JStr ''https://bucket.example'')])\<rparr>
   \<and> map_of [(''url'', JStr ''https://bucket.example'')] ''fields'' = None
   \<and> fst (upload_cost_information example_malformed_env \<lparr>ctx_instance = example_cloud_instance\<rparr>
          ''snowflake_credits'' example_records) =
        Inl (AssertionError (JObj [(''url'', JStr ''https://bucket.example'')]))
   \<and> \<not> list_ex is_file_post (snd (upload_cost_information example_malformed_env
          \<lparr>ctx_instance = example_cloud_instance\<rparr> ''snowflake_credits'' example_records))"
proof -
  let ?resp = "\<lparr>status_code = 200, reason = ''OK'',
                 body = Some (JObj [(''url'', JStr ''https://bucket.example'')])\<rparr>"
  have d: "deps_installed example_malformed_env"
    by (simp add: deps_installed_def example_malformed_env_def)
  have c: "cloud_agent_part (ctx_instance \<lparr>ctx_instance = example_cloud_instance\<rparr>) =
      Some \<lparr>dagster_cloud_gen_insights_url_url = ''https://org.example/gen_insights_url'',
            dagster_cloud_api_headers = [(''Dagster-Cloud-Api-Token'', ''token'')],
            dagster_cloud_api_timeout = 60, dagster_cloud_api_proxies = None\<rparr>"
    by (simp add: example_cloud_instance_def)
  have p: "post_url_outcome example_malformed_env = Inr ?resp"
    by (simp add: example_malformed_env_def)
  have s: "is_success ?resp"
    by (simp add: is_success_def)
  have b: "body ?resp = Some (JObj [(''url'', JStr ''https://bucket.example'')])"
    by simp
  have k: "map_of [(''url'', JStr ''https://bucket.example'')] ''url'' = None
           \<or> map_of [(''url'', JStr ''https://bucket.example'')] ''fields'' = None"
    by simp
  from missing_key_is_malformed_response [OF d c p s b k, of "''snowflake_credits''" example_records]
    d p s
  show ?thesis by simp
qed

lemma malformed_body_never_posted:
  assumes "deps_installed env"
    and "cloud_agent_part (ctx_instance ctx) = Some c"
    and "post_url_outcome env = Inr resp"
    and "is_success resp"
    and "body resp = Some v"
    and "\<forall>kvs. v = JObj kvs \<longrightarrow> map_of kvs ''url'' = None \<or> map_of kvs ''fields'' = None"
  shows "(\<exists>e. fst (upload_cost_information env ctx metric_name cost_information) = Inl e
              \<and> (e = AssertionError v \<or> (\<exists>m. e = TypeError m)))
         \<and> \<not> list_ex is_file_post (snd (upload_cost_information env ctx metric_name cost_information))"
  using assms by (cases v) (auto simp add: upload_defs is_file_post_def split: bool.splits)

lemma file_post_member: "PostFile u f p t \<in> set tr \<Longrightarrow> list_ex is_file_post tr"
  unfolding list_ex_iff by (rule bexI [where x = "PostFile u f p t"]) (simp_all add: is_file_post_def)

text \<open>
  Claim C9. When the upload has reached the POST of the file to the signed destination,
  it returns normally whatever response that POST gives: \<open>resp2\<close> is arbitrary, so a
  status that is not a success status goes unnoticed.
\<close>

theorem file_post_status_ignored:
  assumes "deps_installed env"
    and "cloud_agent_part (ctx_instance ctx) = Some c"
    and "post_url_outcome env = Inr resp"
    and "is_success resp"
    and "body resp = Some (JObj kvs)"
    and "map_of kvs ''url'' = Some signed_url"
    and "map_of kvs ''fields'' = Some form_fields"
    and "post_file_outcome env = Inr resp2"
  shows "fst (upload_cost_information env ctx metric_name cost_information) = Inr ()
         \<and> (\<exists>path t. PostFile signed_url form_fields path t \<in>
               set (snd (upload_cost_information env ctx metric_name cost_information)))"
  using assms by (simp add: upload_obj_defs)

theorem file_post_status_ignored_witness:
  "post_file_outcome example_upload_env = Inr \<lparr>status_code = 403, reason = ''Forbidden'', body = None\<rparr>
   \<and> \<not> is_success \<lparr>status_code = 403, reason = ''Forbidden'', body = None\<rparr>
   \<and> fst (upload_cost_information example_upload_env \<lparr>ctx_instance = example_cloud_instance\<rparr>
          ''snowflake_credits'' example_records) = Inr ()
   \<and> list_ex is_file_post (snd (upload_cost_information example_upload_env
          \<lparr>ctx_instance = example_cloud_instance\<rparr> ''snowflake_credits'' example_records))"
proof -
  let ?kvs = "[(''url'', JStr ''https://bucket.example''), (''fields'', JObj [(''key'', JStr ''k'')])]"
  let ?resp = "\<lparr>status_code = 200, reason = ''OK'', body = Some (JObj ?kvs)\<rparr>"
  let ?resp2 = "\<lparr>status_code = 403, reason = ''Forbidden'', body = None :: json option\<rparr>"
  have d: "deps_installed example_upload_env"
    by (simp add: deps_installed_def example_upload_env_def)
  have c: "cloud_agent_part (ctx_instance \<lparr>ctx_instance = example_cloud_instance\<rparr>) =
      Some \<lparr>dagster_cloud_gen_insights_url_url = ''https://org.example/gen_insights_url'',
            dagster_cloud_api_headers = [(''Dagster-Cloud-Api-Token'', ''token'')],
            dagster_cloud_api_timeout = 60, dagster_cloud_api_proxies = None\<rparr>"
    by (simp add: example_cloud_instance_def)
  have p: "post_url_outcome example_upload_env = Inr ?resp"
    by (simp add: example_upload_env_def)
  have s: "is_success ?resp"
    by (simp add: is_success_def)
  have b: "body ?resp = Some (JObj ?kvs)"
    by simp
  have u: "map_of ?kvs ''url'' = Some (JStr ''https://bucket.example'')"
    by simp
  have f: "map_of ?kvs ''fields'' = Some (JObj [(''key'', JStr ''k'')])"
    by simp
  have q: "post_file_outcome example_upload_env = Inr ?resp2"
    by (simp add: example_upload_env_def)
  have n: "\<not> is_success ?resp2"
    by (simp add: is_success_def)
  from file_post_status_ignored [OF d c p s b u f q, of "''snowflake_credits''" example_records]
  have "fst (upload_cost_information example_upload_env \<lparr>ctx_instance = example_cloud_instance\<rparr>
          ''snowflake_credits'' example_records) = Inr ()
     \<and> list_ex is_file_post (snd (upload_cost_information example_upload_env
          \<lparr>ctx_instance = example_cloud_instance\<rparr> ''snowflake_credits'' example_records))"
    by (auto intro: file_post_member)
  with q n show ?thesis by simp
qed

section \<open>The two conversions agree\<close>

text \<open>The string \<open>decimal\<close> gives is the decimal numeral of the number, converts back to
  the number, and is never capped for a process id.\<close>

lemma small_nat:
  "(d::nat) < 10 \<Longrightarrow>
   d = 0 \<or> d = 1 \<or> d = 2 \<or> d = 3 \<or> d = 4 \<or> d = 5 \<or> d = 6 \<or> d = 7 \<or> d = 8 \<or> d = 9"
  by arith

lemma digit_char_values:
  "digit_char 0 = CHR ''0''" "digit_char 1 = CHR ''1''" "digit_char 2 = CHR ''2''"
  "digit_char 3 = CHR ''3''" "digit_char 4 = CHR ''4''" "digit_char 5 = CHR ''5''"
  "digit_char 6 = CHR ''6''" "digit_char 7 = CHR ''7''" "digit_char 8 = CHR ''8''"
  "digit_char 9 = CHR ''9''" "digit_char (Suc 0) = CHR ''1''"
  by (simp_all add: digit_char_def)

lemma digit_char_is_digit: "d < 10 \<Longrightarrow> is_digit (digit_char d)"
  by (drule small_nat) (auto simp add: digit_char_values is_digit_def)

lemma digit_char_value: "d < 10 \<Longrightarrow> digit_value (digit_char d) = d"
  by (drule small_nat) (auto simp add: digit_char_values digit_value_def)

lemma is_digit_plain:
  "is_digit c \<Longrightarrow> \<not> is_space c \<and> c \<noteq> CHR ''_'' \<and> c \<noteq> CHR ''-'' \<and> c \<noteq> CHR ''+''"
  by (auto simp add: is_digit_def is_space_def)

lemma nat_digits_small: "n < 10 \<Longrightarrow> nat_digits n = [digit_char n]"
  by (subst nat_digits.simps) simp

lemma nat_digits_large:
  "\<not> n < 10 \<Longrightarrow> nat_digits n = nat_digits (n div 10) @ [digit_char (n mod 10)]"
  by (subst nat_digits.simps) simp

lemma nat_digits_nonempty: "nat_digits n \<noteq> []"
  by (cases "n < 10") (simp_all add: nat_digits_small nat_digits_large)

lemma nat_digits_all_digits: "c \<in> set (nat_digits n) \<Longrightarrow> is_digit c"
proof (induction n rule: nat_digits.induct)
  case (1 n)
  show ?case
  proof (cases "n < 10")
    case True
    with "1.prems" show ?thesis
      by (simp add: nat_digits_small digit_char_is_digit)
  next
    case False
    with "1.prems" have "c \<in> set (nat_digits (n div 10)) \<or> c = digit_char (n mod 10)"
      by (auto simp add: nat_digits_large)
    then show ?thesis
    proof
      assume "c \<in> set (nat_digits (n div 10))"
      with False show ?thesis by (simp add: "1.IH")
    next
      assume "c = digit_char (n mod 10)"
      then show ?thesis by (simp add: digit_char_is_digit)
    qed
  qed
qed


lemma scan_digits_all_digits:
  "ds \<noteq> [] \<Longrightarrow> \<forall>c \<in> set ds. is_digit c \<Longrightarrow> scan_digits ds"
proof (induction ds rule: scan_digits.induct)
  case (3 c d cs)
  then have "d \<noteq> CHR ''_''" using is_digit_plain [of d] by simp
  with 3 show ?case by simp
qed simp_all

lemma digits_value_snoc:
  "is_digit c \<Longrightarrow> digits_value (ds @ [c]) = 10 * digits_value ds + digit_value c"
  by (simp add: digits_value_def)

lemma digits_value_nat_digits: "digits_value (nat_digits n) = n"
proof (induction n rule: nat_digits.induct)
  case (1 n)
  show ?case
  proof (cases "n < 10")
    case True
    then show ?thesis
      by (simp add: nat_digits_small digits_value_def digit_char_is_digit digit_char_value)
  next
    case False
    have "is_digit (digit_char (n mod 10))" "digit_value (digit_char (n mod 10)) = n mod 10"
      by (simp_all add: digit_char_is_digit digit_char_value)
    with False "1.IH" [OF False] show ?thesis
      by (simp add: nat_digits_large digits_value_snoc)
  qed
qed

lemma strip_id:
  assumes "s \<noteq> []" and "\<not> is_space (hd s)" and "\<not> is_space (last s)"
  shows "strip s = s"
proof -
  from assms(1,2) have a: "dropWhile is_space s = s"
    by (cases s) simp_all
  from assms(1,3) have "dropWhile is_space (rev s) = rev s"
    by (cases "rev s") (simp_all add: hd_rev [symmetric])
  with a show ?thesis by (simp add: strip_def)
qed


lemma nat_digits_plain:
  "strip (nat_digits m) = nat_digits m" "scan_digits (nat_digits m)"
  "\<exists>c cs. nat_digits m = c # cs \<and> c \<noteq> CHR ''-'' \<and> c \<noteq> CHR ''+''"
  "\<not> is_space (last (nat_digits m))"
proof -
  have ne: "nat_digits m \<noteq> []" by (rule nat_digits_nonempty)
  then have h: "is_digit (hd (nat_digits m))" and l: "is_digit (last (nat_digits m))"
    using hd_in_set last_in_set nat_digits_all_digits by blast+
  from ne h l show "strip (nat_digits m) = nat_digits m"
    by (simp add: strip_id is_digit_plain)
  from ne show "scan_digits (nat_digits m)"
    by (intro scan_digits_all_digits ballI) (auto intro: nat_digits_all_digits)
  from ne h show "\<exists>c cs. nat_digits m = c # cs \<and> c \<noteq> CHR ''-'' \<and> c \<noteq> CHR ''+''"
    using is_digit_plain [of "hd (nat_digits m)"] by (cases "nat_digits m") simp_all
  from l show "\<not> is_space (last (nat_digits m))"
    by (simp add: is_digit_plain)
qed

lemma filter_digits_nat_digits: "filter is_digit (nat_digits n) = nat_digits n"
  by (simp add: filter_id_conv nat_digits_all_digits)

lemma py_int_decimal:
  assumes "\<not> exceeds_cap lim (length (nat_digits (nat \<bar>n\<bar>)))"
  shows "py_int lim (decimal n) = Some n"
proof (cases "n < 0")
  case True
  let ?ds = "nat_digits (nat (- n))"
  have "strip (CHR ''-'' # ?ds) = CHR ''-'' # ?ds"
    using nat_digits_plain(4) [of "nat (- n)"] nat_digits_nonempty [of "nat (- n)"]
    by (intro strip_id) (simp_all add: is_space_def)
  moreover from True assms have "\<not> exceeds_cap lim (length ?ds)"
    by (simp add: abs_if)
  ultimately show ?thesis
    using True nat_digits_plain(2) [of "nat (- n)"]
    by (simp add: py_int_def decimal_def digits_value_nat_digits filter_digits_nat_digits)
next
  case False
  let ?ds = "nat_digits (nat n)"
  from nat_digits_plain(3) [of "nat n"] obtain c cs
    where cs: "?ds = c # cs" "c \<noteq> CHR ''-''" "c \<noteq> CHR ''+''" by blast
  have v: "digits_value (c # cs) = nat n"
    using digits_value_nat_digits [of "nat n"] cs(1) by simp
  have s: "scan_digits (c # cs)" "strip (c # cs) = c # cs"
    using nat_digits_plain(1,2) [of "nat n"] cs(1) by simp_all
  have f: "filter is_digit (c # cs) = c # cs"
    using filter_digits_nat_digits [of "nat n"] cs(1) by simp
  from False assms cs(1) have e: "\<not> exceeds_cap lim (length (c # cs))"
    by (simp add: abs_if)
  from False cs s v e show ?thesis
    by (simp add: py_int_def decimal_def f del: filter.simps)
qed

lemma nat_digits_length: "0 < k \<Longrightarrow> n < 10 ^ k \<Longrightarrow> length (nat_digits n) \<le> k"
proof (induction n arbitrary: k rule: nat_digits.induct)
  case (1 n)
  show ?case
  proof (cases "n < 10")
    case True
    with "1.prems" show ?thesis by (simp add: nat_digits_small)
  next
    case False
    with "1.prems" obtain j where j: "k = Suc j" by (cases k) simp_all
    with False "1.prems" have "0 < j" by (cases j) simp_all
    moreover from j "1.prems" have "n div 10 < 10 ^ j"
      by (simp add: less_mult_imp_div_less mult.commute)
    ultimately have "length (nat_digits (n div 10)) \<le> j"
      using "1.IH" [OF False] by blast
    with False j show ?thesis by (simp add: nat_digits_large)
  qed
qed

lemma pid_digits:
  fixes w :: "32 word"
  shows "length (nat_digits (unat w)) \<le> 10"
proof -
  have "unat w < 2 ^ 32"
    using unsigned_less [of w, where ?'a = nat] by simp
  also have "(2::nat) ^ 32 < 10 ^ 10" by simp
  finally show ?thesis
    by (intro nat_digits_length) simp_all
qed

lemma pid_never_capped:
  fixes w :: "32 word"
  shows "\<not> exceeds_cap lim (length (nat_digits (nat \<bar>uint w\<bar>)))"
  using pid_digits [of w] by (simp add: exceeds_cap_def)

lemma py_str_pid:
  fixes w :: "32 word"
  shows "py_str lim (uint w) = Inr (decimal (uint w))"
  using pid_never_capped [of lim w] by (simp add: py_str_def)

lemma nat_digits_leading_zero: "hd (nat_digits n) = CHR ''0'' \<Longrightarrow> n = 0"
proof (induction n rule: nat_digits.induct)
  case (1 n)
  show ?case
  proof (cases "n < 10")
    case True
    with "1.prems" have "digit_char n = CHR ''0''" by (simp add: nat_digits_small)
    with small_nat [OF True] show ?thesis
      by (auto simp add: digit_char_values)
  next
    case False
    with "1.prems" have "hd (nat_digits (n div 10)) = CHR ''0''"
      by (simp add: nat_digits_large nat_digits_nonempty)
    with "1.IH" [OF False] have "n div 10 = 0" by simp
    with False show ?thesis by simp
  qed
qed

lemma plain_decimal_of_nat_digits: "plain_decimal_of (nat_digits m) m"
proof -
  have "nat_digits m = ''0''" if "hd (nat_digits m) = CHR ''0''"
    using nat_digits_leading_zero [OF that] by (simp add: nat_digits_small digit_char_values)
  then show ?thesis
    by (auto simp add: plain_decimal_of_def nat_digits_nonempty list_all_iff nat_digits_all_digits
        digits_value_nat_digits)
qed

lemma decimal_is_decimal_of: "is_decimal_of (decimal n) n"
proof (cases "n < 0")
  case True
  then show ?thesis
    by (simp add: is_decimal_of_def decimal_def plain_decimal_of_nat_digits)
next
  case False
  from nat_digits_plain(3) [of "nat n"] obtain c cs
    where cs: "nat_digits (nat n) = c # cs" "c \<noteq> CHR ''-''" by blast
  with False plain_decimal_of_nat_digits [of "nat n"] show ?thesis
    by (simp add: is_decimal_of_def decimal_def)
qed

text \<open>No other string is the decimal numeral of the number.\<close>

lemma digit_chars_by_code:
  "(of_char c :: nat) = 48 \<Longrightarrow> c = CHR ''0''" "(of_char c :: nat) = 49 \<Longrightarrow> c = CHR ''1''"
  "(of_char c :: nat) = 50 \<Longrightarrow> c = CHR ''2''" "(of_char c :: nat) = 51 \<Longrightarrow> c = CHR ''3''"
  "(of_char c :: nat) = 52 \<Longrightarrow> c = CHR ''4''" "(of_char c :: nat) = 53 \<Longrightarrow> c = CHR ''5''"
  "(of_char c :: nat) = 54 \<Longrightarrow> c = CHR ''6''" "(of_char c :: nat) = 55 \<Longrightarrow> c = CHR ''7''"
  "(of_char c :: nat) = 56 \<Longrightarrow> c = CHR ''8''" "(of_char c :: nat) = 57 \<Longrightarrow> c = CHR ''9''"
  by (rule of_char_eqI [where ?'a = nat], simp)+

lemma is_digit_cases:
  assumes "is_digit c"
  shows "c = CHR ''0'' \<or> c = CHR ''1'' \<or> c = CHR ''2'' \<or> c = CHR ''3'' \<or> c = CHR ''4''
       \<or> c = CHR ''5'' \<or> c = CHR ''6'' \<or> c = CHR ''7'' \<or> c = CHR ''8'' \<or> c = CHR ''9''"
proof -
  let ?v = "of_char c :: nat"
  from assms have "?v = 48 \<or> ?v = 49 \<or> ?v = 50 \<or> ?v = 51 \<or> ?v = 52 \<or> ?v = 53 \<or> ?v = 54
      \<or> ?v = 55 \<or> ?v = 56 \<or> ?v = 57"
    unfolding is_digit_def by arith
  then show ?thesis
    using digit_chars_by_code [of c] by blast
qed

lemma digit_char_digit_value: "is_digit c \<Longrightarrow> digit_char (digit_value c) = c"
  by (drule is_digit_cases) (auto simp add: digit_value_def digit_char_values)

lemma digit_value_small: "is_digit c \<Longrightarrow> digit_value c < 10"
  by (auto simp add: is_digit_def digit_value_def)


lemma nat_digits_zero: "nat_digits 0 = ''0''"
  by (simp add: nat_digits_small digit_char_values)

lemma plain_decimal_of_unique: "plain_decimal_of ds m \<Longrightarrow> ds = nat_digits m"
proof (induction ds arbitrary: m rule: rev_induct)
  case Nil
  then show ?case by (simp add: plain_decimal_of_def)
next
  case (snoc c xs)
  from snoc.prems have digits: "list_all is_digit xs" "is_digit c"
    and val: "digits_value (xs @ [c]) = m"
    and lead: "hd (xs @ [c]) = CHR ''0'' \<longrightarrow> xs @ [c] = ''0''"
    by (simp_all add: plain_decimal_of_def)
  from digits(2) val have m: "m = 10 * digits_value xs + digit_value c"
    by (simp add: digits_value_snoc)
  have small: "digit_value c < 10"
    using digits(2) by (rule digit_value_small)
  show ?case
  proof (cases "xs = []")
    case True
    with m have "m = digit_value c" by (simp add: digits_value_def)
    with True small digits(2) show ?thesis
      by (simp add: nat_digits_small digit_char_digit_value)
  next
    case False
    with lead have nz: "hd xs \<noteq> CHR ''0''" by auto
    with False digits(1) have "plain_decimal_of xs (digits_value xs)"
      by (simp add: plain_decimal_of_def)
    then have xs: "xs = nat_digits (digits_value xs)"
      by (rule snoc.IH)
    have "digits_value xs \<noteq> 0"
    proof
      assume "digits_value xs = 0"
      with xs have "xs = ''0''" by (simp add: nat_digits_zero)
      with nz show False by simp
    qed
    with m small have "\<not> m < 10" "m div 10 = digits_value xs" "m mod 10 = digit_value c"
      by simp_all
    with xs digits(2) show ?thesis
      by (simp add: nat_digits_large digit_char_digit_value)
  qed
qed

lemma is_decimal_of_unique: "is_decimal_of s n \<Longrightarrow> s = decimal n"
proof (cases s)
  case Nil
  assume "is_decimal_of s n"
  with Nil show ?thesis by (simp add: is_decimal_of_def)
next
  case (Cons c cs)
  assume a: "is_decimal_of s n"
  show ?thesis
  proof (cases "c = CHR ''-''")
    case True
    with a Cons have "n < 0" "plain_decimal_of cs (nat (- n))"
      by (simp_all add: is_decimal_of_def)
    with Cons True plain_decimal_of_unique show ?thesis
      by (simp add: decimal_def)
  next
    case False
    with a Cons have "0 \<le> n" "plain_decimal_of s (nat n)"
      by (simp_all add: is_decimal_of_def)
    with plain_decimal_of_unique show ?thesis
      by (simp add: decimal_def)
  qed
qed

section \<open>Properties of the process run launcher\<close>

lemma py_int_examples:
  "py_int 4300 ''42'' = Some 42" "py_int 4300 ''0'' = Some 0" "py_int 4300 ''abc'' = None"
  by (simp_all add: py_int_def strip_def is_space_def is_digit_def digits_value_def digit_value_def
      exceeds_cap_def)

text \<open>A separator character before the digits is not whitespace for the conversion.\<close>

lemma py_int_separator_rejected: "py_int lim [CHR 0x1C, CHR ''4'', CHR ''2''] = None"
  by (simp add: py_int_def strip_def is_space_def is_digit_def)

lemma decimal_examples: "decimal 4242 = ''4242''" "decimal 7 = ''7''"
  by (simp_all add: decimal_def digit_char_def nat_digits.simps)

lemma uint_examples: "uint (4242 :: 32 word) = 4242" "uint (7 :: 32 word) = 7"
  by simp_all

lemmas launcher_example_defs = example_process_env_def example_run_def example_run_zero_def
  example_run_bad_tag_def example_plain_instance_def example_launch_context_def

lemmas launcher_defs = can_terminate_def terminate_def get_pid_def get_run_by_id_def PID_TAG_def
  check_on_process_def kill_process_def io_defs

lemma can_terminate_zero_pid:
  assumes "get_run_by_id inst rid = Some r" and "\<not> is_finished r"
    and "map_of (tags r) ''process/pid'' = Some v" and "py_int (int_max_str_digits env) v = Some 0"
  shows "can_terminate env inst rid = Inr False"
    and "terminate env inst rid = (Inr False, [])"
  using assms by (simp_all add: launcher_defs)

text \<open>
  Claim C3, as the code has it. \<open>can_terminate\<close> returns false when the run does not exist,
  when it is finished and when it has no \<open>process/pid\<close> tag. When the run exists, is not
  finished and its tag converts to an integer other than zero, the answer is true exactly
  when the liveness check on that pid reports RUNNING.
\<close>

theorem can_terminate_cases:
  "(get_run_by_id inst rid = None \<longrightarrow> can_terminate env inst rid = Inr False)
   \<and> (\<forall>r. get_run_by_id inst rid = Some r \<and> is_finished r \<longrightarrow>
          can_terminate env inst rid = Inr False)
   \<and> (\<forall>r. get_run_by_id inst rid = Some r \<and> map_of (tags r) ''process/pid'' = None \<longrightarrow>
          can_terminate env inst rid = Inr False)
   \<and> (\<forall>r v pid. get_run_by_id inst rid = Some r \<and> \<not> is_finished r \<and>
          map_of (tags r) ''process/pid'' = Some v \<and>
          py_int (int_max_str_digits env) v = Some pid \<and> pid \<noteq> 0 \<longrightarrow>
          can_terminate env inst rid = Inr (check_on_process env pid = RUNNING))"
  by (simp add: launcher_defs)

theorem can_terminate_cases_witness:
  "get_run_by_id example_plain_instance ''run_1'' = Some example_run
   \<and> \<not> is_finished example_run
   \<and> map_of (tags example_run) ''process/pid'' = Some ''42''
   \<and> py_int (int_max_str_digits example_process_env) ''42'' = Some 42
   \<and> check_on_process example_process_env 42 = RUNNING
   \<and> can_terminate example_process_env example_plain_instance ''run_1'' = Inr True
   \<and> get_run_by_id example_plain_instance ''run_9'' = None
   \<and> can_terminate example_process_env example_plain_instance ''run_9'' = Inr False"
proof -
  have g: "get_run_by_id example_plain_instance ''run_1'' = Some example_run"
    by (simp add: get_run_by_id_def example_plain_instance_def)
  have f: "\<not> is_finished example_run"
    by (simp add: example_run_def)
  have t: "map_of (tags example_run) ''process/pid'' = Some ''42''"
    by (simp add: example_run_def)
  have p: "py_int (int_max_str_digits example_process_env) ''42'' = Some 42"
    by (simp add: example_process_env_def py_int_examples)
  have c: "check_on_process example_process_env 42 = RUNNING"
    by (simp add: check_on_process_def example_process_env_def)
  have n: "get_run_by_id example_plain_instance ''run_9'' = None"
    by (simp add: get_run_by_id_def example_plain_instance_def)
  from can_terminate_cases [of example_plain_instance "''run_1''" example_process_env]
    g f t c p
  have a: "can_terminate example_process_env example_plain_instance ''run_1'' = Inr True"
    by simp
  from can_terminate_cases [of example_plain_instance "''run_9''" example_process_env] n
  have b: "can_terminate example_process_env example_plain_instance ''run_9'' = Inr False"
    by simp
  from g f t c a n b p show ?thesis by simp
qed

text \<open>
  The claim as first stated promises the liveness answer for every tagged, unfinished
  run. It fails on a tag that does not convert (the conversion error escapes) and on the
  tag \<open>0\<close> (the answer is false although the liveness check reports RUNNING).
\<close>

theorem can_terminate_counterexample:
  "get_run_by_id example_plain_instance ''run_bad'' = Some example_run_bad_tag
   \<and> is_finished example_run_bad_tag = False
   \<and> map_of (tags example_run_bad_tag) ''process/pid'' = Some ''abc''
   \<and> can_terminate example_process_env example_plain_instance ''run_bad'' = Inl (ValueError ''abc'')
   \<and> get_run_by_id example_plain_instance ''run_zero'' = Some example_run_zero
   \<and> is_finished example_run_zero = False
   \<and> map_of (tags example_run_zero) ''process/pid'' = Some ''0''
   \<and> check_on_process example_process_env 0 = RUNNING
   \<and> can_terminate example_process_env example_plain_instance ''run_zero'' = Inr False"
  by (simp add: launcher_defs launcher_example_defs py_int_examples)

text \<open>
  Claim C4, as the code has it. For a run that exists, is not finished and carries a
  \<open>process/pid\<close> tag for a RUNNING pid other than zero, \<open>terminate\<close> reports the run as
  canceling once, then signals that pid, then returns true. It returns false, calling
  nothing, when the run does not exist, is finished or has no tag.
\<close>

theorem terminate_cases:
  "(get_run_by_id inst rid = None \<longrightarrow> terminate env inst rid = (Inr False, []))
   \<and> (\<forall>r. get_run_by_id inst rid = Some r \<and> is_finished r \<longrightarrow>
          terminate env inst rid = (Inr False, []))
   \<and> (\<forall>r. get_run_by_id inst rid = Some r \<and> map_of (tags r) ''process/pid'' = None \<longrightarrow>
          terminate env inst rid = (Inr False, []))
   \<and> (\<forall>r v pid. get_run_by_id inst rid = Some r \<and> \<not> is_finished r \<and>
          map_of (tags r) ''process/pid'' = Some v \<and>
          py_int (int_max_str_digits env) v = Some pid \<and>
          check_on_process env pid = RUNNING \<and> pid \<noteq> 0 \<longrightarrow>
          terminate env inst rid = (Inr True, [ReportRunCanceling r, KillProcess pid]))"
  by (simp add: launcher_defs)

theorem terminate_cases_witness:
  "get_run_by_id example_plain_instance ''run_1'' = Some example_run
   \<and> \<not> is_finished example_run
   \<and> map_of (tags example_run) ''process/pid'' = Some ''42''
   \<and> py_int (int_max_str_digits example_process_env) ''42'' = Some 42
   \<and> check_on_process example_process_env 42 = RUNNING
   \<and> terminate example_process_env example_plain_instance ''run_1'' =
        (Inr True, [ReportRunCanceling example_run, KillProcess 42])
   \<and> get_run_by_id example_plain_instance ''run_9'' = None
   \<and> terminate example_process_env example_plain_instance ''run_9'' = (Inr False, [])"
proof -
  have g: "get_run_by_id example_plain_instance ''run_1'' = Some example_run"
    by (simp add: get_run_by_id_def example_plain_instance_def)
  have f: "\<not> is_finished example_run"
    by (simp add: example_run_def)
  have t: "map_of (tags example_run) ''process/pid'' = Some ''42''"
    by (simp add: example_run_def)
  have p: "py_int (int_max_str_digits example_process_env) ''42'' = Some 42"
    by (simp add: example_process_env_def py_int_examples)
  have c: "check_on_process example_process_env 42 = RUNNING"
    by (simp add: check_on_process_def example_process_env_def)
  have n: "get_run_by_id example_plain_instance ''run_9'' = None"
    by (simp add: get_run_by_id_def example_plain_instance_def)
  from terminate_cases [of example_plain_instance "''run_1''" example_process_env]
    g f t p c
  have a: "terminate example_process_env example_plain_instance ''run_1'' =
        (Inr True, [ReportRunCanceling example_run, KillProcess 42])"
    by simp
  from terminate_cases [of example_plain_instance "''run_9''" example_process_env] n
  have b: "terminate example_process_env example_plain_instance ''run_9'' = (Inr False, [])"
    by simp
  from g f t c a n b p show ?thesis by simp
qed

text \<open>
  The claim as first stated covers every tag for a RUNNING pid. It fails on the tag \<open>0\<close>
  with a liveness check that reports RUNNING for pid 0: \<open>terminate\<close> returns false and
  neither notifies nor signals.
\<close>

theorem terminate_counterexample:
  "get_run_by_id example_plain_instance ''run_zero'' = Some example_run_zero
   \<and> is_finished example_run_zero = False
   \<and> map_of (tags example_run_zero) ''process/pid'' = Some ''0''
   \<and> py_int (int_max_str_digits example_process_env) ''0'' = Some 0
   \<and> check_on_process example_process_env 0 = RUNNING
   \<and> terminate example_process_env example_plain_instance ''run_zero'' = (Inr False, [])"
  by (simp add: launcher_defs launcher_example_defs py_int_examples)

text \<open>
  Claim C10. For a run that exists, is not finished and carries a \<open>process/pid\<close> tag that
  is not a decimal integer string, that is, a tag the integer conversion rejects,
  \<open>can_terminate\<close> and \<open>terminate\<close> both raise the conversion's \<open>ValueError\<close> instead of
  returning false, and \<open>terminate\<close> calls nothing. Lemmas \<open>py_int_rejects_foreign_char\<close>,
  \<open>py_int_empty\<close> and \<open>py_int_separator_rejected\<close> name strings the conversion rejects: the
  empty string, every string with a character that is no digit, whitespace, underscore or
  sign, and digits behind a separator character.
\<close>

theorem bad_pid_tag_raises:
  assumes "get_run_by_id inst rid = Some r"
    and "\<not> is_finished r"
    and "map_of (tags r) ''process/pid'' = Some v"
    and "py_int (int_max_str_digits env) v = None"
  shows "can_terminate env inst rid = Inl (ValueError v)
         \<and> terminate env inst rid = (Inl (ValueError v), [])"
  using assms by (simp add: launcher_defs)

theorem bad_pid_tag_raises_witness:
  "get_run_by_id example_plain_instance ''run_bad'' = Some example_run_bad_tag
   \<and> \<not> is_finished example_run_bad_tag
   \<and> map_of (tags example_run_bad_tag) ''process/pid'' = Some ''abc''
   \<and> py_int (int_max_str_digits example_process_env) ''abc'' = None
   \<and> can_terminate example_process_env example_plain_instance ''run_bad'' = Inl (ValueError ''abc'')
   \<and> terminate example_process_env example_plain_instance ''run_bad'' = (Inl (ValueError ''abc''), [])"
proof -
  have g: "get_run_by_id example_plain_instance ''run_bad'' = Some example_run_bad_tag"
    by (simp add: get_run_by_id_def example_plain_instance_def)
  have f: "\<not> is_finished example_run_bad_tag"
    by (simp add: example_run_bad_tag_def)
  have t: "map_of (tags example_run_bad_tag) ''process/pid'' = Some ''abc''"
    by (simp add: example_run_bad_tag_def)
  have p: "py_int (int_max_str_digits example_process_env) ''abc'' = None"
    by (simp add: example_process_env_def py_int_examples)
  from bad_pid_tag_raises [OF g f t p] g f t p
  show ?thesis by simp
qed

lemma scan_digits_chars: "scan_digits ds \<Longrightarrow> c \<in> set ds \<Longrightarrow> is_digit c \<or> c = CHR ''_''"
  by (induction ds rule: scan_digits.induct) (auto split: if_splits)

lemma py_int_chars:
  assumes "py_int lim s \<noteq> None" and "c \<in> set (strip s)"
  shows "is_digit c \<or> c = CHR ''_'' \<or> c = CHR ''+'' \<or> c = CHR ''-''"
proof (cases "strip s")
  case Nil
  with assms(2) show ?thesis by simp
next
  case (Cons x xs)
  show ?thesis
  proof (cases "x = CHR ''-'' \<or> x = CHR ''+''")
    case True
    with Cons assms(1) have "scan_digits xs"
      by (auto simp add: py_int_def Let_def split: if_splits)
    with assms(2) Cons True scan_digits_chars show ?thesis by auto
  next
    case False
    with Cons assms(1) have "scan_digits (x # xs)"
      by (auto simp add: py_int_def Let_def split: if_splits)
    with assms(2) Cons scan_digits_chars show ?thesis by metis
  qed
qed

lemma strip_keeps_non_space:
  assumes "c \<in> set s" and "\<not> is_space c"
  shows "c \<in> set (strip s)"
proof -
  have keep: "c \<in> set (dropWhile is_space xs)" if "c \<in> set xs" for xs
  proof -
    have "c \<in> set (takeWhile is_space xs) \<union> set (dropWhile is_space xs)"
      using that by (metis set_append takeWhile_dropWhile_id)
    with assms(2) show ?thesis by (auto dest: set_takeWhileD)
  qed
  have "c \<in> set (rev (dropWhile is_space s))"
    using keep [OF assms(1)] by simp
  then have "c \<in> set (dropWhile is_space (rev (dropWhile is_space s)))"
    by (rule keep)
  then show ?thesis by (simp add: strip_def)
qed

lemma py_int_rejects_foreign_char:
  assumes "c \<in> set s"
    and "\<not> is_digit c" and "\<not> is_space c"
    and "c \<noteq> CHR ''_''" and "c \<noteq> CHR ''+''" and "c \<noteq> CHR ''-''"
  shows "py_int lim s = None"
  using py_int_chars [of lim s c] strip_keeps_non_space [of c s] assms by blast

lemma py_int_empty: "py_int lim [] = None"
  by (simp add: py_int_def strip_def)

lemma map_of_retagged:
  "map_of xs rid = Some r \<Longrightarrow>
   map_of (map (\<lambda>(k, r). if k = rid then (k, r\<lparr>tags := f (tags r)\<rparr>) else (k, r)) xs) rid =
     Some (r\<lparr>tags := f (tags r)\<rparr>)"
  by (induction xs) (auto split: if_splits)

lemma add_run_tags_missing:
  "get_run_by_id inst rid = None \<Longrightarrow> add_run_tags inst rid new_tags = Inl (DagsterRunNotFoundError rid)"
  by (simp add: add_run_tags_def)

lemma add_run_tags_stored:
  assumes "get_run_by_id inst rid = Some r"
  shows "\<exists>inst'. add_run_tags inst rid new_tags = Inr inst'
           \<and> get_run_by_id inst' rid = Some (r\<lparr>tags := merge_tags (tags r) new_tags\<rparr>)
           \<and> cloud_agent_part inst' = cloud_agent_part inst \<and> get_ref inst' = get_ref inst"
  using map_of_retagged [of "run_storage inst" rid r "\<lambda>old. merge_tags old new_tags"] assms
  by (simp add: get_run_by_id_def add_run_tags_def)

lemma launch_run_without_origin:
  "pipeline_code_origin ctx = None \<Longrightarrow>
   launch_run env inst ctx = ((Inl (CheckError ''Expected non-None value''), []), inst)"
  by (simp add: launch_run_def not_none_def io_defs)

lemma launch_run_with_origin:
  "pipeline_code_origin ctx = Some origin \<Longrightarrow>
   launch_run env inst ctx =
     (let args = get_command_args env
             \<lparr>pipeline_origin = origin, pipeline_run_id = run_id (pipeline_run ctx),
              instance_ref = get_ref inst\<rparr>;
          pid = uint (spawned_pid env args);
          calls = [LaunchProcess args,
                   AddRunTags (run_id (pipeline_run ctx)) [(''process/pid'', decimal pid)]]
      in case add_run_tags inst (run_id (pipeline_run ctx)) [(''process/pid'', decimal pid)] of
           Inl e \<Rightarrow> ((Inl e, calls), inst)
         | Inr inst' \<Rightarrow> ((Inr (), calls), inst'))"
  by (simp add: launch_run_def not_none_def launch_process_def io_defs PID_TAG_def Let_def
      py_str_pid split: sum.splits)

text \<open>
  Claim C8. Without a code origin \<open>launch_run\<close> fails with the check error, calls nothing
  and leaves the instance as it was. With an origin it makes exactly two calls: one process
  launch with the command line of the run arguments, then one tag write of \<open>process/pid\<close>
  mapped to the stringified pid, which is the decimal numeral of the pid (the only such
  string, by \<open>is_decimal_of_unique\<close>) and converts back to it. When the run is in the storage the launch returns normally and the stored run
  carries that tag afterwards; when it is not, the framework's tag write raises after the
  process has been spawned.
\<close>

theorem launch_run_origin_check:
  "(pipeline_code_origin ctx = None \<longrightarrow>
      (\<exists>msg. fst (fst (launch_run env inst ctx)) = Inl (CheckError msg))
      \<and> snd (fst (launch_run env inst ctx)) = []
      \<and> snd (launch_run env inst ctx) = inst)
   \<and> (\<forall>origin. pipeline_code_origin ctx = Some origin \<longrightarrow>
        (let rid = run_id (pipeline_run ctx);
             args = get_command_args env
               \<lparr>pipeline_origin = origin, pipeline_run_id = rid, instance_ref = get_ref inst\<rparr>;
             pid = uint (spawned_pid env args);
             pid_str = decimal pid
         in snd (fst (launch_run env inst ctx)) =
              [LaunchProcess args, AddRunTags rid [(''process/pid'', pid_str)]]
            \<and> is_decimal_of pid_str pid
            \<and> py_int (int_max_str_digits env) pid_str = Some pid
            \<and> (\<forall>r. get_run_by_id inst rid = Some r \<longrightarrow>
                  fst (fst (launch_run env inst ctx)) = Inr ()
                  \<and> (\<exists>r'. get_run_by_id (snd (launch_run env inst ctx)) rid = Some r'
                        \<and> map_of (tags r') ''process/pid'' = Some pid_str))
            \<and> (get_run_by_id inst rid = None \<longrightarrow>
                  fst (fst (launch_run env inst ctx)) = Inl (DagsterRunNotFoundError rid)
                  \<and> snd (launch_run env inst ctx) = inst)))"
proof (intro conjI impI allI)
  assume "pipeline_code_origin ctx = None"
  then show "\<exists>msg. fst (fst (launch_run env inst ctx)) = Inl (CheckError msg)"
    and "snd (fst (launch_run env inst ctx)) = []"
    and "snd (launch_run env inst ctx) = inst"
    by (simp_all add: launch_run_without_origin)
next
  fix origin
  assume o: "pipeline_code_origin ctx = Some origin"
  let ?rid = "run_id (pipeline_run ctx)"
  let ?args = "get_command_args env
     \<lparr>pipeline_origin = origin, pipeline_run_id = ?rid, instance_ref = get_ref inst\<rparr>"
  let ?pid = "uint (spawned_pid env ?args)"
  let ?new = "[(''process/pid'', decimal ?pid)]"
  have calls: "snd (fst (launch_run env inst ctx)) = [LaunchProcess ?args, AddRunTags ?rid ?new]"
    by (simp add: launch_run_with_origin [OF o] Let_def split: sum.splits)
  have dec: "is_decimal_of (decimal ?pid) ?pid"
    by (rule decimal_is_decimal_of)
  have again: "py_int (int_max_str_digits env) (decimal ?pid) = Some ?pid"
    by (rule py_int_decimal) (rule pid_never_capped)
  have stored: "fst (fst (launch_run env inst ctx)) = Inr ()
      \<and> (\<exists>r'. get_run_by_id (snd (launch_run env inst ctx)) ?rid = Some r'
            \<and> map_of (tags r') ''process/pid'' = Some (decimal ?pid))"
    if "get_run_by_id inst ?rid = Some r" for r
  proof -
    from add_run_tags_stored [OF that, of ?new] obtain inst'
      where i: "add_run_tags inst ?rid ?new = Inr inst'"
        "get_run_by_id inst' ?rid = Some (r\<lparr>tags := merge_tags (tags r) ?new\<rparr>)"
      by blast
    then show ?thesis
      by (simp add: launch_run_with_origin [OF o] Let_def merge_tags_def)
  qed
  have missing: "fst (fst (launch_run env inst ctx)) = Inl (DagsterRunNotFoundError ?rid)
      \<and> snd (launch_run env inst ctx) = inst"
    if "get_run_by_id inst ?rid = None"
    by (simp add: launch_run_with_origin [OF o] Let_def add_run_tags_missing [OF that])
  from calls dec again stored missing
  show "let rid = run_id (pipeline_run ctx);
             args = get_command_args env
               \<lparr>pipeline_origin = origin, pipeline_run_id = rid, instance_ref = get_ref inst\<rparr>;
             pid = uint (spawned_pid env args);
             pid_str = decimal pid
         in snd (fst (launch_run env inst ctx)) =
              [LaunchProcess args, AddRunTags rid [(''process/pid'', pid_str)]]
            \<and> is_decimal_of pid_str pid
            \<and> py_int (int_max_str_digits env) pid_str = Some pid
            \<and> (\<forall>r. get_run_by_id inst rid = Some r \<longrightarrow>
                  fst (fst (launch_run env inst ctx)) = Inr ()
                  \<and> (\<exists>r'. get_run_by_id (snd (launch_run env inst ctx)) rid = Some r'
                        \<and> map_of (tags r') ''process/pid'' = Some pid_str))
            \<and> (get_run_by_id inst rid = None \<longrightarrow>
                  fst (fst (launch_run env inst ctx)) = Inl (DagsterRunNotFoundError rid)
                  \<and> snd (launch_run env inst ctx) = inst)"
    unfolding Let_def by blast
qed

theorem launch_run_origin_check_witness:
  "pipeline_code_origin example_launch_context = Some ''origin''
   \<and> get_run_by_id example_plain_instance ''run_1'' = Some example_run
   \<and> fst (launch_run example_process_env example_plain_instance example_launch_context) =
        (Inr (), [LaunchProcess [''dagster'', ''api'', ''execute_run'', ''origin'', ''run_1'', ''ref''],
                  AddRunTags ''run_1'' [(''process/pid'', ''4242'')]])
   \<and> snd (fst (launch_run (example_process_env\<lparr>spawned_pid := \<lambda>args. 7\<rparr>)
                 example_plain_instance example_launch_context)) =
        [LaunchProcess [''dagster'', ''api'', ''execute_run'', ''origin'', ''run_1'', ''ref''],
         AddRunTags ''run_1'' [(''process/pid'', ''7'')]]
   \<and> get_run_by_id (example_plain_instance\<lparr>run_storage := []\<rparr>) ''run_1'' = None
   \<and> fst (launch_run example_process_env (example_plain_instance\<lparr>run_storage := []\<rparr>)
             example_launch_context) =
        (Inl (DagsterRunNotFoundError ''run_1''),
         [LaunchProcess [''dagster'', ''api'', ''execute_run'', ''origin'', ''run_1'', ''ref''],
          AddRunTags ''run_1'' [(''process/pid'', ''4242'')]])
   \<and> pipeline_code_origin (example_launch_context\<lparr>pipeline_code_origin := None\<rparr>) = None
   \<and> snd (fst (launch_run example_process_env example_plain_instance
                 (example_launch_context\<lparr>pipeline_code_origin := None\<rparr>))) = []"
proof -
  let ?calls = "[LaunchProcess [''dagster'', ''api'', ''execute_run'', ''origin'', ''run_1'', ''ref''],
                 AddRunTags ''run_1'' [(''process/pid'', ''4242'')]]"
  have o: "pipeline_code_origin example_launch_context = Some ''origin''"
    by (simp add: example_launch_context_def)
  have g: "get_run_by_id example_plain_instance ''run_1'' = Some example_run"
    by (simp add: get_run_by_id_def example_plain_instance_def)
  have m: "get_run_by_id (example_plain_instance\<lparr>run_storage := []\<rparr>) ''run_1'' = None"
    by (simp add: get_run_by_id_def)
  have n: "pipeline_code_origin (example_launch_context\<lparr>pipeline_code_origin := None\<rparr>) = None"
    by simp
  have rid: "run_id (pipeline_run example_launch_context) = ''run_1''"
    by (simp add: example_launch_context_def example_run_def)
  from launch_run_origin_check [of example_launch_context example_process_env example_plain_instance]
    o g rid
  have a: "fst (launch_run example_process_env example_plain_instance example_launch_context) =
        (Inr (), ?calls)"
    by (simp add: Let_def example_process_env_def example_plain_instance_def uint_examples
        decimal_examples prod_eq_iff)
  from launch_run_origin_check [of example_launch_context
      "example_process_env\<lparr>spawned_pid := \<lambda>args. 7\<rparr>" example_plain_instance] o rid
  have b: "snd (fst (launch_run (example_process_env\<lparr>spawned_pid := \<lambda>args. 7\<rparr>)
                 example_plain_instance example_launch_context)) =
        [LaunchProcess [''dagster'', ''api'', ''execute_run'', ''origin'', ''run_1'', ''ref''],
         AddRunTags ''run_1'' [(''process/pid'', ''7'')]]"
    by (simp add: Let_def example_process_env_def example_plain_instance_def uint_examples
        decimal_examples)
  from launch_run_origin_check [of example_launch_context example_process_env
      "example_plain_instance\<lparr>run_storage := []\<rparr>"] o m rid
  have c: "fst (launch_run example_process_env (example_plain_instance\<lparr>run_storage := []\<rparr>)
             example_launch_context) = (Inl (DagsterRunNotFoundError ''run_1''), ?calls)"
    by (simp add: Let_def example_process_env_def example_plain_instance_def uint_examples
        decimal_examples prod_eq_iff)
  from launch_run_origin_check [of "example_launch_context\<lparr>pipeline_code_origin := None\<rparr>"
      example_process_env example_plain_instance] n
  have d: "snd (fst (launch_run example_process_env example_plain_instance
                 (example_launch_context\<lparr>pipeline_code_origin := None\<rparr>))) = []"
    by simp
  from o g a b m c n d show ?thesis by simp
qed

text \<open>
  The claim as first stated has the launcher refuse an instance that is not of the
  cloud-agent class. On such an instance \<open>launch_run\<close> spawns a process and returns
  normally, and \<open>terminate\<close> signals the process and returns true.
\<close>

theorem other_instance_counterexample:
  "cloud_agent_part example_plain_instance = None
   \<and> fst (launch_run example_process_env example_plain_instance example_launch_context) =
        (Inr (), [LaunchProcess [''dagster'', ''api'', ''execute_run'', ''origin'', ''run_1'', ''ref''],
                  AddRunTags ''run_1'' [(''process/pid'', ''4242'')]])
   \<and> terminate example_process_env example_plain_instance ''run_1'' =
        (Inr True, [ReportRunCanceling example_run, KillProcess 42])"
proof -
  have a: "cloud_agent_part example_plain_instance = None"
    by (simp add: example_plain_instance_def)
  have o: "pipeline_code_origin example_launch_context = Some ''origin''"
    by (simp add: example_launch_context_def)
  have b: "fst (launch_run example_process_env example_plain_instance example_launch_context) =
        (Inr (), [LaunchProcess [''dagster'', ''api'', ''execute_run'', ''origin'', ''run_1'', ''ref''],
                  AddRunTags ''run_1'' [(''process/pid'', ''4242'')]])"
    unfolding launch_run_with_origin [OF o]
    by (simp add: Let_def launcher_example_defs uint_examples decimal_examples add_run_tags_def
        get_run_by_id_def)
  have c: "terminate example_process_env example_plain_instance ''run_1'' =
        (Inr True, [ReportRunCanceling example_run, KillProcess 42])"
    by (simp add: launcher_defs launcher_example_defs py_int_examples)
  from a b c show ?thesis by simp
qed

text \<open>
  Claim C2, as the code has it. On an instance that is not of the cloud-agent class the
  uploader fails without a network call and without a process call: with the configuration
  error once its optional dependencies import, with the import error before that. The
  launcher never looks at the class of the instance: \<open>launch_run\<close> and \<open>terminate\<close> give
  the same result, calls and storage whatever \<open>cloud_agent_part\<close> holds.
\<close>

theorem uploader_rejects_other_instance:
  assumes "cloud_agent_part (ctx_instance ctx) = None"
  shows "(deps_installed env \<longrightarrow>
            fst (upload_cost_information env ctx metric_name cost_information) =
              Inl (RuntimeError ''This asset only functions in a running Dagster Cloud instance''))
         \<and> (\<not> deps_installed env \<longrightarrow>
            (\<exists>m. fst (upload_cost_information env ctx metric_name cost_information) = Inl (ImportError m)))
         \<and> \<not> list_ex is_network_call (snd (upload_cost_information env ctx metric_name cost_information))
         \<and> \<not> list_ex is_process_call (snd (upload_cost_information env ctx metric_name cost_information))
         \<and> fst (launch_run penv (inst\<lparr>cloud_agent_part := variant\<rparr>) lctx) = fst (launch_run penv inst lctx)
         \<and> snd (launch_run penv (inst\<lparr>cloud_agent_part := variant\<rparr>) lctx) =
             (snd (launch_run penv inst lctx))\<lparr>cloud_agent_part := variant\<rparr>
         \<and> terminate penv (inst\<lparr>cloud_agent_part := variant\<rparr>) rid = terminate penv inst rid"
proof -
  have u: "upload_cost_information env ctx metric_name cost_information =
      (if \<not> importable env ''pyarrow'' then (Inl (ImportError ''pyarrow''), [])
       else if \<not> importable env ''pyarrow.parquet'' then (Inl (ImportError ''pyarrow.parquet''), [])
       else (Inl (RuntimeError ''This asset only functions in a running Dagster Cloud instance''),
             [CreateTempDir (temp_dir env),
              WriteTable (path_join (temp_dir env) ''cost.parquet'')
                \<lparr>column_names = [''opaque_id'', ''cost'', ''metric_name'', ''query_id''],
                 columns = [map (\<lambda>r. CStr (fst r)) cost_information,
                            map (\<lambda>r. CFloat (fst (snd r))) cost_information,
                            map (\<lambda>r. CStr metric_name) cost_information,
                            map (\<lambda>r. CStr (snd (snd r))) cost_information]\<rparr>,
              RemoveTempDir (temp_dir env)]))"
    using assms by (simp add: upload_defs)
  have l: "launch_run penv (inst\<lparr>cloud_agent_part := variant\<rparr>) lctx =
      (fst (launch_run penv inst lctx), (snd (launch_run penv inst lctx))\<lparr>cloud_agent_part := variant\<rparr>)"
    by (simp add: launch_run_def add_run_tags_def get_run_by_id_def launch_process_def io_defs
        Let_def split: sum.splits option.splits)
  have t: "terminate penv (inst\<lparr>cloud_agent_part := variant\<rparr>) rid = terminate penv inst rid"
    by (simp add: terminate_def get_run_by_id_def)
  from u l t show ?thesis
    by (simp add: deps_installed_def is_network_call_def is_process_call_def)
qed

theorem uploader_rejects_other_instance_witness:
  "cloud_agent_part (ctx_instance \<lparr>ctx_instance = example_plain_instance\<rparr>) = None
   \<and> deps_installed example_upload_env
   \<and> fst (upload_cost_information example_upload_env \<lparr>ctx_instance = example_plain_instance\<rparr>
          ''snowflake_credits'' example_records) =
        Inl (RuntimeError ''This asset only functions in a running Dagster Cloud instance'')
   \<and> \<not> list_ex is_network_call (snd (upload_cost_information example_upload_env
          \<lparr>ctx_instance = example_plain_instance\<rparr> ''snowflake_credits'' example_records))"
proof -
  have n: "cloud_agent_part (ctx_instance \<lparr>ctx_instance = example_plain_instance\<rparr>) = None"
    by (simp add: example_plain_instance_def)
  have d: "deps_installed example_upload_env"
    by (simp add: deps_installed_def example_upload_env_def)
  from uploader_rejects_other_instance [OF n, of example_upload_env "''snowflake_credits''" example_records] n d
  show ?thesis by simp
qed

text \<open>The pid that \<open>launch_run\<close> records for a stored, unfinished run is the pid that
  \<open>terminate\<close> signals afterwards.\<close>

lemma launch_then_terminate:
  assumes "pipeline_code_origin ctx = Some origin"
    and "get_run_by_id inst (run_id (pipeline_run ctx)) = Some r"
    and "\<not> is_finished r"
    and "uint (spawned_pid env (get_command_args env
           \<lparr>pipeline_origin = origin, pipeline_run_id = run_id (pipeline_run ctx),
            instance_ref = get_ref inst\<rparr>)) = pid"
    and "pid \<noteq> 0"
  shows "\<exists>r'. terminate env (snd (launch_run env inst ctx)) (run_id (pipeline_run ctx)) =
           (Inr True, [ReportRunCanceling r', KillProcess pid])"
proof -
  let ?rid = "run_id (pipeline_run ctx)"
  let ?new = "[(''process/pid'', decimal pid)]"
  let ?r' = "r\<lparr>tags := merge_tags (tags r) ?new\<rparr>"
  from add_run_tags_stored [OF assms(2), of ?new] obtain inst'
    where i: "add_run_tags inst ?rid ?new = Inr inst'" "get_run_by_id inst' ?rid = Some ?r'"
    by blast
  have "snd (launch_run env inst ctx) = inst'"
    using assms(4) i(1) by (simp add: launch_run_with_origin [OF assms(1)] Let_def)
  with i(2) have g: "get_run_by_id (snd (launch_run env inst ctx)) ?rid = Some ?r'"
    by simp
  have t: "map_of (tags ?r') ''process/pid'' = Some (decimal pid)"
    by (simp add: merge_tags_def)
  have b: "py_int (int_max_str_digits env) (decimal pid) = Some pid"
    using assms(4) py_int_decimal [OF pid_never_capped] by blast
  have "terminate env (snd (launch_run env inst ctx)) ?rid =
          (Inr True, [ReportRunCanceling ?r', KillProcess pid])"
    using g t b assms(3,5)
    by (simp add: terminate_def get_pid_def PID_TAG_def kill_process_def io_defs)
  then show ?thesis by blast
qed

end
